theory Spec2Isabelle
  imports Complex_Main "HOL-Library.Multiset"
begin

section \<open>JavaScript strings\<close>

text \<open>
  A JavaScript string is a sequence of UTF-16 code units; \<open>length\<close>, \<open>includes\<close>,
  \<open>startsWith\<close>, \<open>trim\<close> and the regular expressions of the parser (none has the
  \<open>u\<close> flag) all work on code units.  A code unit is modelled as a natural number and
  an ASCII literal of the source is written \<open>js ''...''\<close>.  The non-ASCII literals of
  the source are given by their code units: the leftwards arrow U+2190 is 8592, the
  bullet U+2022 is 8226, the check marks U+2713, U+2714 and U+2705 are 10003, 10004
  and 9989.
\<close>

type_synonym cu = nat
type_synonym jsstring = "cu list"

definition js :: "string \<Rightarrow> jsstring" where
  "js s = map of_char s"

text \<open>White space as \<open>String.prototype.trim\<close> and the class \<open>\s\<close> see it.\<close>

definition isWhiteSpace :: "cu \<Rightarrow> bool" where
  "isWhiteSpace c \<longleftrightarrow>
     c = 9 \<or> c = 10 \<or> c = 11 \<or> c = 12 \<or> c = 13 \<or> c = 32 \<or> c = 160 \<or> c = 5760
     \<or> (8192 \<le> c \<and> c \<le> 8202) \<or> c = 8232 \<or> c = 8233 \<or> c = 8239 \<or> c = 8287
     \<or> c = 12288 \<or> c = 65279"

text \<open>The line terminators, which the regular expression \<open>.\<close> does not match.\<close>

definition isLineTerminator :: "cu \<Rightarrow> bool" where
  "isLineTerminator c \<longleftrightarrow> c = 10 \<or> c = 13 \<or> c = 8232 \<or> c = 8233"

definition isDigit :: "cu \<Rightarrow> bool" where
  "isDigit c \<longleftrightarrow> 48 \<le> c \<and> c \<le> 57"

definition startsWith :: "jsstring \<Rightarrow> jsstring \<Rightarrow> bool" where
  "startsWith s p \<longleftrightarrow> take (length p) s = p"

fun includes_js :: "jsstring \<Rightarrow> jsstring \<Rightarrow> bool" where
  "includes_js [] p = (p = [])"
| "includes_js (c # s) p = (startsWith (c # s) p \<or> includes_js s p)"

definition trim :: "jsstring \<Rightarrow> jsstring" where
  "trim s = rev (dropWhile isWhiteSpace (rev (dropWhile isWhiteSpace s)))"

text \<open>
  \<open>toLowerCase\<close>.  The parser only asks of a lowered line whether it contains or starts
  with a keyword made of ASCII lower-case letters, the space, the colon, the arrow and
  the bullet.  The code units that lower-casing turns into one of these are the ASCII
  capitals, U+0130 (which becomes \<open>i\<close> followed by U+0307) and the Kelvin sign U+212A
  (which becomes \<open>k\<close>); every other code unit is left as it is here, since what it
  becomes is never one of the code units searched for.
\<close>

fun lowerUnit :: "cu \<Rightarrow> jsstring" where
  "lowerUnit c =
     (if 65 \<le> c \<and> c \<le> 90 then [c + 32]
      else if c = 304 then [105, 775]
      else if c = 8490 then [107]
      else [c])"

definition toLowerCase :: "jsstring \<Rightarrow> jsstring" where
  "toLowerCase s = concat (map lowerUnit s)"

text \<open>\<open>s.split(d)\<close> for a separator of one code unit.\<close>

fun splitOn :: "cu \<Rightarrow> jsstring \<Rightarrow> jsstring list" where
  "splitOn d [] = [[]]"
| "splitOn d (c # s) =
     (if c = d then [] # splitOn d s
      else (case splitOn d s of [] \<Rightarrow> [[c]] | l # ls \<Rightarrow> (c # l) # ls))"

text \<open>\<open>lines.join('\n')\<close>, used to write a text down line by line.\<close>

definition joinLines :: "jsstring list \<Rightarrow> jsstring" where
  "joinLines ls = (case ls of [] \<Rightarrow> [] | l # r \<Rightarrow> foldl (\<lambda>a b. a @ 10 # b) l r)"

section \<open>Regular expressions\<close>

text \<open>
  A backtracking matcher with the priorities of the ECMAScript one: a quantifier is
  greedy and gives back one repetition at a time, an alternation tries its left side
  first, and a search returns the match at the leftmost start position.  The
  quantifiers of the parser's expressions only repeat single character classes, so
  \<open>Rep lo hi p\<close> repeats a class between \<open>lo\<close> and \<open>hi\<close> times (\<open>None\<close>: unbounded).
  A capture group that takes no part in the match stays undefined.
\<close>

datatype rx =
    Cls "cu \<Rightarrow> bool"
  | Seq rx rx
  | Alt rx rx
  | Opt rx
  | Rep nat "nat option" "cu \<Rightarrow> bool"
  | Grp nat rx
  | Bol
  | Eol
  | Eps

record mstate =
  pos :: nat
  rest :: jsstring
  caps :: "nat \<rightharpoonup> jsstring"

fun rep :: "(cu \<Rightarrow> bool) \<Rightarrow> nat \<Rightarrow> nat option \<Rightarrow> (mstate \<Rightarrow> mstate option)
    \<Rightarrow> nat \<Rightarrow> jsstring \<Rightarrow> (nat \<rightharpoonup> jsstring) \<Rightarrow> mstate option" where
  "rep p lo hi k i [] c = (if lo = 0 then k \<lparr>pos = i, rest = [], caps = c\<rparr> else None)"
| "rep p lo hi k i (x # xs) c =
     (if p x \<and> hi \<noteq> Some 0 then
        (case rep p (lo - 1) (map_option (\<lambda>h. h - 1) hi) k (Suc i) xs c of
           Some r \<Rightarrow> Some r
         | None \<Rightarrow> if lo = 0 then k \<lparr>pos = i, rest = x # xs, caps = c\<rparr> else None)
      else if lo = 0 then k \<lparr>pos = i, rest = x # xs, caps = c\<rparr> else None)"

fun rmatch :: "rx \<Rightarrow> (mstate \<Rightarrow> mstate option) \<Rightarrow> mstate \<Rightarrow> mstate option" where
  "rmatch (Cls p) k st =
     (case rest st of
        [] \<Rightarrow> None
      | x # xs \<Rightarrow> if p x then k (st\<lparr>pos := Suc (pos st), rest := xs\<rparr>) else None)"
| "rmatch (Seq a b) k st = rmatch a (rmatch b k) st"
| "rmatch (Alt a b) k st =
     (case rmatch a k st of Some r \<Rightarrow> Some r | None \<Rightarrow> rmatch b k st)"
| "rmatch (Opt a) k st =
     (case rmatch a k st of Some r \<Rightarrow> Some r | None \<Rightarrow> k st)"
| "rmatch (Rep lo hi p) k st = rep p lo hi k (pos st) (rest st) (caps st)"
| "rmatch (Grp n a) k st =
     rmatch a (\<lambda>st'. k (st'\<lparr>caps := (caps st')(n \<mapsto> take (pos st' - pos st) (rest st))\<rparr>)) st"
| "rmatch Bol k st = (if pos st = 0 then k st else None)"
| "rmatch Eol k st = (if rest st = [] then k st else None)"
| "rmatch Eps k st = k st"

text \<open>
  The result of \<open>s.match(r)\<close> for an expression without the \<open>g\<close> flag: the index of
  the match, the matched text (element 0 of the JavaScript array) and the groups.
\<close>

record matched =
  m_index :: nat
  m_text :: jsstring
  m_group :: "nat \<rightharpoonup> jsstring"

fun searchFrom :: "rx \<Rightarrow> nat \<Rightarrow> jsstring \<Rightarrow> matched option" where
  "searchFrom r i s =
     (case rmatch r Some \<lparr>pos = i, rest = s, caps = Map.empty\<rparr> of
        Some st \<Rightarrow> Some \<lparr>m_index = i, m_text = take (pos st - i) s, m_group = caps st\<rparr>
      | None \<Rightarrow> (case s of [] \<Rightarrow> None | _ # s' \<Rightarrow> searchFrom r (Suc i) s'))"

declare searchFrom.simps [simp del]

definition match :: "jsstring \<Rightarrow> rx \<Rightarrow> matched option" where
  "match s r = searchFrom r 0 s"

definition matches :: "jsstring \<Rightarrow> rx \<Rightarrow> bool" where
  "matches s r \<longleftrightarrow> match s r \<noteq> None"

text \<open>\<open>s.replace(r, '')\<close> for an expression without the \<open>g\<close> flag.\<close>

definition removeFirst :: "jsstring \<Rightarrow> rx \<Rightarrow> jsstring" where
  "removeFirst s r =
     (case match s r of
        None \<Rightarrow> s
      | Some m \<Rightarrow> take (m_index m) s @ drop (m_index m + length (m_text m)) s)"

text \<open>\<open>s.replace(/,/g, '')\<close>.\<close>

definition removeCommas :: "jsstring \<Rightarrow> jsstring" where
  "removeCommas s = filter (\<lambda>c. c \<noteq> 44) s"

definition chr :: "char \<Rightarrow> rx" where
  "chr c = Cls (\<lambda>x. x = of_char c)"

text \<open>
  A literal character under the \<open>i\<close> flag (without \<open>u\<close>): both sides are canonicalised
  with \<open>toUpperCase\<close>, and a code unit of 128 or more is never identified with an ASCII
  one, so an ASCII letter matches exactly its two ASCII cases.
\<close>

definition chrI :: "char \<Rightarrow> rx" where
  "chrI c = Cls (\<lambda>x. x < 128 \<and> lowerUnit x = lowerUnit (of_char c))"

definition lit :: "string \<Rightarrow> rx" where
  "lit s = foldr (\<lambda>c r. Seq (chr c) r) s Eps"

definition litI :: "string \<Rightarrow> rx" where
  "litI s = foldr (\<lambda>c r. Seq (chrI c) r) s Eps"

definition starCls :: "(cu \<Rightarrow> bool) \<Rightarrow> rx" where
  "starCls p = Rep 0 None p"

definition plusCls :: "(cu \<Rightarrow> bool) \<Rightarrow> rx" where
  "plusCls p = Rep 1 None p"

definition isSign :: "cu \<Rightarrow> bool" where
  "isSign c \<longleftrightarrow> c = 43 \<or> c = 45"

definition digitOrComma :: "cu \<Rightarrow> bool" where
  "digitOrComma c \<longleftrightarrow> isDigit c \<or> c = 44"

text \<open>\<open>[\d,]+\.?\d*\<close>, the unsigned amount shared by the number patterns.\<close>

definition amountRx :: rx where
  "amountRx = Seq (plusCls digitOrComma) (Seq (Opt (chr CHR ''.'')) (starCls isDigit))"

text \<open>\<open>[+-]?[\d,]+\.?\d*\<close>\<close>

definition signedAmountRx :: rx where
  "signedAmountRx = Seq (Opt (Cls isSign)) amountRx"

text \<open>\<open>/^#?\d+\./\<close>, a numbered line.\<close>

definition numberedRx :: rx where
  "numberedRx = Seq Bol (Seq (Opt (chr CHR ''#'')) (Seq (plusCls isDigit) (chr CHR ''.'')))"

text \<open>\<open>/^#?\d+\.\s*/\<close>, the prefix removed from a market question.\<close>

definition numberPrefixRx :: rx where
  "numberPrefixRx = Seq numberedRx (starCls isWhiteSpace)"

text \<open>\<open>/^#\s*\d+$/\<close>, a pagination button.\<close>

definition pageButtonRx :: rx where
  "pageButtonRx =
     Seq Bol (Seq (chr CHR ''#'') (Seq (starCls isWhiteSpace) (Seq (plusCls isDigit) Eol)))"

text \<open>\<open>/Positions\s*\((\d+)\)/i\<close>\<close>

definition headerRx :: rx where
  "headerRx =
     Seq (litI ''Positions'') (Seq (starCls isWhiteSpace)
       (Seq (chr CHR ''('') (Seq (Grp 1 (plusCls isDigit)) (chr CHR '')''))))"

text \<open>\<open>/([+-]?)\$?([\d,]+\.?\d*)\s*\(([+-]?)([\d,]+\.?\d*)%\)/\<close>\<close>

definition totalPnlRx :: rx where
  "totalPnlRx =
     Seq (Grp 1 (Opt (Cls isSign))) (Seq (Opt (chr CHR ''$'')) (Seq (Grp 2 amountRx)
       (Seq (starCls isWhiteSpace) (Seq (chr CHR ''('') (Seq (Grp 3 (Opt (Cls isSign)))
         (Seq (Grp 4 amountRx) (Seq (chr CHR ''%'') (chr CHR '')''))))))))"

text \<open>\<open>/([+-]?[\d,]+\.?\d*)\s*\$?\s*\(([+-]?[\d,]+\.?\d*)%\)/\<close>\<close>

definition positionPnlRx :: rx where
  "positionPnlRx =
     Seq (Grp 1 signedAmountRx) (Seq (starCls isWhiteSpace) (Seq (Opt (chr CHR ''$''))
       (Seq (starCls isWhiteSpace) (Seq (chr CHR ''('') (Seq (Grp 2 signedAmountRx)
         (Seq (chr CHR ''%'') (chr CHR '')'')))))))"

text \<open>\<open>/^\<bullet>\s*(Invested|invested)/\<close>, with the bullet U+2022.\<close>

definition bulletInvestedRx :: rx where
  "bulletInvestedRx =
     Seq Bol (Seq (Cls (\<lambda>x. x = 8226)) (Seq (starCls isWhiteSpace)
       (Grp 1 (Alt (lit ''Invested'') (lit ''invested'')))))"

text \<open>The check marks U+2713, U+2714, U+2705 and the white space after them, at the start.\<close>

definition checkmarkRx :: rx where
  "checkmarkRx =
     Seq Bol (Seq (Cls (\<lambda>x. x = 10003 \<or> x = 10004 \<or> x = 9989)) (starCls isWhiteSpace))"

text \<open>\<open>/\d{4}-\d{2}-\d{2}/\<close> and \<open>/(\d{1,2}\/\d{1,2}\/\d{4})|(\d{4}-\d{2}-\d{2})/\<close>\<close>

definition isoDateRx :: rx where
  "isoDateRx =
     Seq (Rep 4 (Some 4) isDigit) (Seq (chr CHR ''-'') (Seq (Rep 2 (Some 2) isDigit)
       (Seq (chr CHR ''-'') (Rep 2 (Some 2) isDigit))))"

definition otherDateRx :: rx where
  "otherDateRx =
     Alt (Grp 1 (Seq (Rep 1 (Some 2) isDigit) (Seq (chr CHR ''/'')
            (Seq (Rep 1 (Some 2) isDigit) (Seq (chr CHR ''/'') (Rep 4 (Some 4) isDigit))))))
         (Grp 2 isoDateRx)"

text \<open>
  The expression that \<open>extractTextAfter\<close> builds from the source of
  \<open>/copied|from|copy trade by/i\<close> and the suffix \<open>\s*:?\s*(.+)\<close>: the string
  \<open>copied|from|copy trade by\s*:?\s*(.+)\<close>.  Concatenation binds tighter than
  alternation, so the suffix and its group belong to the third alternative only.
\<close>

definition textAfterRx :: rx where
  "textAfterRx =
     Alt (litI ''copied'') (Alt (litI ''from'')
       (Seq (litI ''copy trade by'') (Seq (starCls isWhiteSpace) (Seq (Opt (chr CHR '':''))
         (Seq (starCls isWhiteSpace) (Grp 1 (plusCls (\<lambda>c. \<not> isLineTerminator c))))))))"

section \<open>Numbers and errors\<close>

text \<open>
  A JavaScript number is modelled as an exact rational or \<open>NaN\<close>: the rounding of a
  decimal numeral to the nearest double, the overflow to \<open>Infinity\<close> and the sign of
  zero are not modelled.  An exception is a value of \<open>error\<close>: \<open>TypeError\<close> is what
  the call of a method on \<open>undefined\<close> raises, \<open>RangeError\<close> what \<open>toISOString\<close> raises
  on an invalid date, and \<open>StorageError\<close> stands for a rejection by the database.
\<close>

datatype number = Num rat | NaN

datatype error = TypeError | RangeError | StorageError nat

definition digitsValue :: "jsstring \<Rightarrow> nat" where
  "digitsValue ds = foldl (\<lambda>a c. 10 * a + (c - 48)) 0 ds"

text \<open>
  \<open>parseFloat\<close> on the strings the parser hands it, which consist of a sign, digits
  and a decimal point only (no exponent, no \<open>Infinity\<close>): the longest prefix that is a
  decimal literal is read, and a string without a digit there gives \<open>NaN\<close>.
\<close>

definition parseFloat :: "jsstring \<Rightarrow> number" where
  "parseFloat s =
     (let t = dropWhile isWhiteSpace s;
          negative = (case t of [] \<Rightarrow> False | c # _ \<Rightarrow> c = 45);
          u = (case t of [] \<Rightarrow> [] | c # r \<Rightarrow> if isSign c then r else t);
          ip = takeWhile isDigit u;
          fp = (case dropWhile isDigit u of
                  [] \<Rightarrow> []
                | c # r \<Rightarrow> if c = 46 then takeWhile isDigit r else [])
      in if ip = [] \<and> fp = [] then NaN
         else Num ((if negative then - 1 else 1) *
                (of_nat (digitsValue ip) + of_nat (digitsValue fp) / 10 ^ length fp)))"

text \<open>\<open>x || null\<close> for a number: \<open>NaN\<close> and zero are falsy.\<close>

definition orNull :: "number \<Rightarrow> rat option" where
  "orNull x = (case x of NaN \<Rightarrow> None | Num v \<Rightarrow> if v = 0 then None else Some v)"

text \<open>\<open>x || 0\<close> for the result of \<open>extractNumber\<close>.\<close>

definition orZero :: "rat option \<Rightarrow> number" where
  "orZero x = (case x of None \<Rightarrow> Num 0 | Some v \<Rightarrow> Num v)"

text \<open>\<open>s || '0'\<close> and \<open>s || null\<close> for a string: the empty string is falsy.\<close>

definition orZeroString :: "jsstring \<Rightarrow> jsstring" where
  "orZeroString s = (if s = [] then js ''0'' else s)"

definition orNullString :: "jsstring option \<Rightarrow> jsstring option" where
  "orNullString x = (case x of None \<Rightarrow> None | Some s \<Rightarrow> if s = [] then None else Some s)"

definition timesNum :: "rat \<Rightarrow> number \<Rightarrow> number" where
  "timesNum a x = (case x of NaN \<Rightarrow> NaN | Num v \<Rightarrow> Num (a * v))"

text \<open>
  \<open>m[n].f(...)\<close>: element \<open>n\<close> of a match array is \<open>undefined\<close> when group \<open>n\<close> took no
  part in the match, and calling a method on it raises a \<open>TypeError\<close>.
\<close>

definition group :: "matched \<Rightarrow> nat \<Rightarrow> error + jsstring" where
  "group m n = (case m_group m n of None \<Rightarrow> Inl TypeError | Some g \<Rightarrow> Inr g)"

section \<open>The response parser (\<open>parser.ts\<close>)\<close>

subsection \<open>Extraction helpers\<close>

definition extractNumber :: "jsstring \<Rightarrow> error + rat option" where
  "extractNumber text =
     (case match text (Grp 1 signedAmountRx) of
        Some m \<Rightarrow>
          (case group m 1 of
             Inl e \<Rightarrow> Inl e
           | Inr g \<Rightarrow> Inr (orNull (parseFloat (removeCommas g))))
      | None \<Rightarrow> Inr None)"

definition extractDate :: "jsstring \<Rightarrow> jsstring option" where
  "extractDate text =
     (case match text isoDateRx of
        Some isoMatch \<Rightarrow> Some (m_text isoMatch)
      | None \<Rightarrow>
          (case match text otherDateRx of
             Some dateMatch \<Rightarrow> Some (m_text dateMatch)
           | None \<Rightarrow> None))"

text \<open>
  \<open>extractTextAfter(text, /copied|from|copy trade by/i)\<close>, the only call in the
  parser: \<open>match ? match[1].trim() : null\<close>.
\<close>

definition extractTextAfter :: "jsstring \<Rightarrow> error + jsstring option" where
  "extractTextAfter text =
     (case match text textAfterRx of
        Some m \<Rightarrow> (case group m 1 of Inl e \<Rightarrow> Inl e | Inr g \<Rightarrow> Inr (Some (trim g)))
      | None \<Rightarrow> Inr None)"

subsection \<open>Records\<close>

text \<open>
  The fields are those of \<open>types.ts\<close>; \<open>invested\<close> and \<open>value\<close> occur in both
  interfaces and carry the prefix \<open>s_\<close> in the snapshot and \<open>p_\<close> in the position.
  A timestamp is the instant in milliseconds since the epoch that the ISO string
  written by \<open>toISOString\<close> denotes.
\<close>

record PortfolioSnapshot =
  total_balance :: number
  available_balance :: number
  s_invested :: number
  s_value :: number
  total_pnl_usd :: number
  total_pnl_pct :: number
  timestamp :: int
  total_positions :: nat

datatype side = Yes | No

record Position =
  market_question :: jsstring
  side :: side
  entry_price :: number
  p_invested :: number
  shares :: number
  p_value :: number
  pnl_usd :: number
  pnl_pct :: number
  expiry_timestamp :: "jsstring option"
  copied_from :: "jsstring option"

record ParsedPortfolio =
  snapshot :: PortfolioSnapshot
  positions :: "Position list"

text \<open>A \<open>Date\<close> object holds a time value in milliseconds or is invalid.\<close>

datatype date = Date int | InvalidDate

definition toISOString :: "date \<Rightarrow> error + int" where
  "toISOString d = (case d of Date t \<Rightarrow> Inr t | InvalidDate \<Rightarrow> Inl RangeError)"

subsection \<open>First pass: the summary\<close>

text \<open>\<open>line.match(/^#?\d+\./) && line.includes('?')\<close>, the first line of a position.\<close>

definition isPositionHeader :: "jsstring \<Rightarrow> bool" where
  "isPositionHeader line \<longleftrightarrow> matches line numberedRx \<and> includes_js line (js ''?'')"

text \<open>The body of the first loop for one line, below the test that leaves the loop.\<close>

definition summaryLine :: "jsstring \<Rightarrow> PortfolioSnapshot \<Rightarrow> error + PortfolioSnapshot" where
  "summaryLine line snap =
     (let lowerLine = toLowerCase line in
      if includes_js lowerLine (js ''total balance'') then
        (case extractNumber line of
           Inl e \<Rightarrow> Inl e
         | Inr None \<Rightarrow> Inr snap
         | Inr (Some balance) \<Rightarrow>
             Inr (if balance \<ge> 0 then snap\<lparr>total_balance := Num balance\<rparr> else snap))
      else if includes_js lowerLine (js ''available balance'')
              \<or> (includes_js lowerLine (js ''available'') \<and> includes_js lowerLine (js ''balance''))
      then
        (case extractNumber line of
           Inl e \<Rightarrow> Inl e
         | Inr None \<Rightarrow> Inr snap
         | Inr (Some available) \<Rightarrow>
             Inr (if available \<ge> 0 then snap\<lparr>available_balance := Num available\<rparr> else snap))
      else if includes_js lowerLine (js ''invested'') \<and> \<not> includes_js lowerLine (js ''shares'')
              \<and> \<not> matches line numberedRx \<and> \<not> startsWith line [8226]
              \<and> \<not> matches line pageButtonRx
      then
        (case extractNumber line of
           Inl e \<Rightarrow> Inl e
         | Inr None \<Rightarrow> Inr snap
         | Inr (Some invested) \<Rightarrow>
             Inr (if invested \<ge> 0 then snap\<lparr>s_invested := Num invested\<rparr> else snap))
      else if includes_js lowerLine (js ''value'') \<and> \<not> includes_js lowerLine (js ''pnl'')
              \<and> \<not> matches line numberedRx \<and> \<not> startsWith line [8226]
              \<and> \<not> matches line pageButtonRx
      then
        (case extractNumber line of
           Inl e \<Rightarrow> Inl e
         | Inr None \<Rightarrow> Inr snap
         | Inr (Some v) \<Rightarrow> Inr (if v \<ge> 0 then snap\<lparr>s_value := Num v\<rparr> else snap))
      else if (includes_js lowerLine (js ''total pnl'') \<or> includes_js lowerLine (js ''total profit''))
              \<and> \<not> matches line numberedRx \<and> \<not> matches line pageButtonRx
      then
        (case match line totalPnlRx of
           Some pnlMatch \<Rightarrow>
             (case group pnlMatch 2 of
                Inl e \<Rightarrow> Inl e
              | Inr g2 \<Rightarrow>
                  (case group pnlMatch 4 of
                     Inl e \<Rightarrow> Inl e
                   | Inr g4 \<Rightarrow>
                       Inr (snap\<lparr>
                         total_pnl_usd :=
                           timesNum (if m_group pnlMatch 1 = Some (js ''-'') then - 1 else 1)
                             (parseFloat (orZeroString (removeCommas g2))),
                         total_pnl_pct :=
                           timesNum (if m_group pnlMatch 3 = Some (js ''-'') then - 1 else 1)
                             (parseFloat (orZeroString (removeCommas g4)))\<rparr>)))
         | None \<Rightarrow>
             (case extractNumber line of
                Inl e \<Rightarrow> Inl e
              | Inr None \<Rightarrow> Inr snap
              | Inr (Some pnl) \<Rightarrow> Inr (snap\<lparr>total_pnl_usd := Num pnl\<rparr>)))
      else Inr snap)"

text \<open>The first loop: it ends at the first line of the first position.\<close>

fun summaryPass :: "jsstring list \<Rightarrow> PortfolioSnapshot \<Rightarrow> error + PortfolioSnapshot" where
  "summaryPass [] snap = Inr snap"
| "summaryPass (line # lines) snap =
     (if isPositionHeader line then Inr snap
      else (case summaryLine line snap of
              Inl e \<Rightarrow> Inl e
            | Inr snap' \<Rightarrow> summaryPass lines snap'))"

subsection \<open>Second pass: the positions\<close>

text \<open>
  The variables of the second loop: the positions pushed so far, the position being
  filled (\<open>currentPosition\<close>, \<open>null\<close> at first) and the flag \<open>inPositionsSection\<close>.
\<close>

record loop_state =
  pushed :: "Position list"
  currentPosition :: "Position option"
  inPositionsSection :: bool

text \<open>The pagination controls and bottom buttons at which the second loop breaks.\<close>

definition isControlLine :: "jsstring \<Rightarrow> bool" where
  "isControlLine line \<longleftrightarrow>
     (let lowerLine = toLowerCase line in
      includes_js lowerLine (8592 # js '' back'')
      \<or> includes_js lowerLine (js ''refresh'')
      \<or> includes_js lowerLine (js ''last page'')
      \<or> includes_js lowerLine (js ''next'')
      \<or> includes_js lowerLine (js ''auto redeem'')
      \<or> (includes_js lowerLine (js ''sell'') \<and> \<not> includes_js lowerLine (js ''shares''))
      \<or> includes_js lowerLine (js ''limit'')
      \<or> matches line pageButtonRx)"

text \<open>The rows that are skipped inside the positions section.\<close>

definition isNonMarketRow :: "jsstring \<Rightarrow> bool" where
  "isNonMarketRow line \<longleftrightarrow>
     (let lowerLine = toLowerCase line in
      includes_js lowerLine (js ''total balance'')
      \<or> includes_js lowerLine (js ''view profile'')
      \<or> includes_js lowerLine (js ''polygonscan'')
      \<or> startsWith lowerLine (8226 # js '' invested:'')
      \<or> (startsWith lowerLine (js ''invested:'') \<and> \<not> includes_js line (js ''?''))
      \<or> includes_js lowerLine (js ''polymarket may have'')
      \<or> includes_js lowerLine (js ''delayed price data'')
      \<or> includes_js lowerLine (js ''manual trades'')
      \<or> includes_js lowerLine (js ''copy trades'')
      \<or> matches line bulletInvestedRx
      \<or> trim line = []
      \<or> (length line < 10 \<and> \<not> includes_js line (js ''?'') \<and> \<not> matches line numberedRx))"

text \<open>\<open>isNumberedMarket || isMarketQuestion\<close>\<close>

definition startsPosition :: "jsstring \<Rightarrow> bool" where
  "startsPosition line \<longleftrightarrow>
     (matches line numberedRx \<and> (includes_js line (js ''?'') \<or> length line > 20))
     \<or> (includes_js line (js ''?'') \<and> length line > 15 \<and> matches line numberedRx)"

text \<open>\<open>lowerLine.includes('no') || lowerLine.includes('short')\<close>\<close>

definition saysNo :: "jsstring \<Rightarrow> bool" where
  "saysNo lowerLine \<longleftrightarrow> includes_js lowerLine (js ''no'') \<or> includes_js lowerLine (js ''short'')"

text \<open>The position that a line starting a position opens.\<close>

definition newPosition :: "jsstring \<Rightarrow> Position" where
  "newPosition line =
     (let marketText = trim (removeFirst line numberPrefixRx);
          marketText = trim (removeFirst marketText checkmarkRx)
      in \<lparr>market_question = marketText,
          side = (if saysNo (toLowerCase line) then No else Yes),
          entry_price = Num 0, p_invested = Num 0, shares = Num 0, p_value = Num 0,
          pnl_usd = Num 0, pnl_pct = Num 0,
          expiry_timestamp = None, copied_from = None\<rparr>)"

text \<open>\<open>currentPosition && currentPosition.market_question\<close>, then \<open>positions.push\<close>.\<close>

definition pushCurrent :: "loop_state \<Rightarrow> Position list" where
  "pushCurrent st =
     (case currentPosition st of
        None \<Rightarrow> pushed st
      | Some p \<Rightarrow> if market_question p \<noteq> [] then pushed st @ [p] else pushed st)"

text \<open>A detail line of the position being filled: the first keyword that occurs decides.\<close>

definition detailLine :: "jsstring \<Rightarrow> Position \<Rightarrow> error + Position" where
  "detailLine line p =
     (let lowerLine = toLowerCase line in
      if includes_js lowerLine (js ''side:'') \<or> includes_js lowerLine (js ''position:'') then
        Inr (p\<lparr>side := (if saysNo lowerLine then No else Yes)\<rparr>)
      else if includes_js lowerLine (js ''entry'') \<or> includes_js lowerLine (js ''entry price'') then
        (case extractNumber line of
           Inl e \<Rightarrow> Inl e | Inr n \<Rightarrow> Inr (p\<lparr>entry_price := orZero n\<rparr>))
      else if includes_js lowerLine (js ''invested'') \<and> \<not> includes_js lowerLine (js ''shares'') then
        (case extractNumber line of
           Inl e \<Rightarrow> Inl e | Inr n \<Rightarrow> Inr (p\<lparr>p_invested := orZero n\<rparr>))
      else if includes_js lowerLine (js ''shares'') then
        (case extractNumber line of
           Inl e \<Rightarrow> Inl e | Inr n \<Rightarrow> Inr (p\<lparr>shares := orZero n\<rparr>))
      else if includes_js lowerLine (js ''value'') \<and> \<not> includes_js lowerLine (js ''pnl'') then
        (case extractNumber line of
           Inl e \<Rightarrow> Inl e | Inr n \<Rightarrow> Inr (p\<lparr>p_value := orZero n\<rparr>))
      else if includes_js lowerLine (js ''pnl'') \<or> includes_js lowerLine (js ''profit'') then
        (case match line positionPnlRx of
           Some pnlMatch \<Rightarrow>
             (case group pnlMatch 1 of
                Inl e \<Rightarrow> Inl e
              | Inr g1 \<Rightarrow>
                  (case group pnlMatch 2 of
                     Inl e \<Rightarrow> Inl e
                   | Inr g2 \<Rightarrow>
                       Inr (p\<lparr>pnl_usd := parseFloat (orZeroString (removeCommas g1)),
                              pnl_pct := parseFloat (orZeroString (removeCommas g2))\<rparr>)))
         | None \<Rightarrow>
             (case extractNumber line of
                Inl e \<Rightarrow> Inl e | Inr n \<Rightarrow> Inr (p\<lparr>pnl_usd := orZero n\<rparr>)))
      else if includes_js lowerLine (js ''expiry'') \<or> includes_js lowerLine (js ''expires'') then
        Inr (p\<lparr>expiry_timestamp := orNullString (extractDate line)\<rparr>)
      else if includes_js lowerLine (js ''copied'') \<or> includes_js lowerLine (js ''from'')
              \<or> includes_js lowerLine (js ''copy trade by'') then
        (case extractTextAfter line of
           Inl e \<Rightarrow> Inl e | Inr t \<Rightarrow> Inr (p\<lparr>copied_from := orNullString t\<rparr>))
      else Inr p)"

text \<open>
  The body of the second loop for one line, below the test that breaks the loop: every
  path through it goes on with the next line, or raises.
\<close>

definition positionLine :: "jsstring \<Rightarrow> loop_state \<Rightarrow> error + loop_state" where
  "positionLine line st0 =
     (let st = (if isPositionHeader line then st0\<lparr>inPositionsSection := True\<rparr> else st0) in
      if inPositionsSection st then
        if isNonMarketRow line then Inr st
        else if startsPosition line then
          Inr (st\<lparr>pushed := pushCurrent st, currentPosition := Some (newPosition line)\<rparr>)
        else
          (case currentPosition st of
             None \<Rightarrow> Inr st
           | Some p \<Rightarrow>
               (case detailLine line p of
                  Inl e \<Rightarrow> Inl e
                | Inr p' \<Rightarrow> Inr (st\<lparr>currentPosition := Some p'\<rparr>)))
      else Inr st)"

fun positionsPass :: "jsstring list \<Rightarrow> loop_state \<Rightarrow> error + loop_state" where
  "positionsPass [] st = Inr st"
| "positionsPass (line # lines) st =
     (if inPositionsSection st \<and> isControlLine line then Inr st
      else (case positionLine line st of
              Inl e \<Rightarrow> Inl e
            | Inr st' \<Rightarrow> positionsPass lines st'))"

subsection \<open>\<open>parsePortfolioResponse\<close>\<close>

text \<open>\<open>text.split('\n').map(l => l.trim()).filter(l => l.length > 0)\<close>\<close>

definition splitLines :: "jsstring \<Rightarrow> jsstring list" where
  "splitLines text = filter (\<lambda>l. length l > 0) (map trim (splitOn 10 text))"

text \<open>The count in the header \<open>Positions(N)\<close>, zero without a header.\<close>

definition headerCount :: "jsstring \<Rightarrow> nat" where
  "headerCount text =
     (case match text headerRx of
        None \<Rightarrow> 0
      | Some headerMatch \<Rightarrow>
          (case m_group headerMatch 1 of None \<Rightarrow> 0 | Some g \<Rightarrow> digitsValue g))"

text \<open>
  The parser.  The wall clock read by \<open>new Date()\<close> is the parameter \<open>now\<close>; the
  optional argument \<open>timestamp\<close> is \<open>None\<close> when the caller leaves it out.
\<close>

definition parsePortfolioResponse ::
    "int \<Rightarrow> jsstring \<Rightarrow> date option \<Rightarrow> error + ParsedPortfolio" where
  "parsePortfolioResponse now text ts =
     (let lines = splitLines text in
      case toISOString (case ts of Some d \<Rightarrow> d | None \<Rightarrow> Date now) of
        Inl e \<Rightarrow> Inl e
      | Inr isoString \<Rightarrow>
          (let snapshot0 =
                 \<lparr>total_balance = Num 0, available_balance = Num 0, s_invested = Num 0,
                  s_value = Num 0, total_pnl_usd = Num 0, total_pnl_pct = Num 0,
                  timestamp = isoString, total_positions = headerCount text\<rparr>
           in case summaryPass lines snapshot0 of
                Inl e \<Rightarrow> Inl e
              | Inr snap \<Rightarrow>
                  (case positionsPass lines
                          \<lparr>pushed = [], currentPosition = None, inPositionsSection = False\<rparr> of
                     Inl e \<Rightarrow> Inl e
                   | Inr st \<Rightarrow> Inr \<lparr>snapshot = snap, positions = pushCurrent st\<rparr>)))"

section \<open>Storage (\<open>db.ts\<close>)\<close>

text \<open>
  The three tables, each a list of rows in insertion order; a row of \<open>positions\<close>
  carries the id of its snapshot.  What the database rejects is decided outside the
  program, so it is a parameter: \<open>faults\<close> gives, for each statement, the error the
  database answers with, if any.
\<close>

datatype event_type = copier_added | copier_removed | settings_changed

record CopyTradingEvent =
  e_timestamp :: int
  event_type :: event_type
  description :: jsstring
  trader_name :: "jsstring option"

record database =
  portfolio_snapshots :: "(nat \<times> PortfolioSnapshot) list"
  positions_rows :: "(nat \<times> Position) list"
  copy_trading_events :: "(nat \<times> CopyTradingEvent) list"

record faults =
  snapshot_insert_error :: "PortfolioSnapshot \<Rightarrow> error option"
  position_insert_error :: "Position \<Rightarrow> error option"
  event_insert_error :: "CopyTradingEvent \<Rightarrow> error option"
  query_error :: "error option"

definition no_faults :: faults where
  "no_faults =
     \<lparr>snapshot_insert_error = (\<lambda>_. None), position_insert_error = (\<lambda>_. None),
      event_insert_error = (\<lambda>_. None), query_error = None\<rparr>"

text \<open>\<open>this.lastID\<close> of an insert into a table with \<open>AUTOINCREMENT\<close>.\<close>

definition lastID :: "(nat \<times> 'a) list \<Rightarrow> nat" where
  "lastID rows = Suc (foldr (\<lambda>r m. max (fst r) m) rows 0)"

text \<open>
  The statements that \<open>savePortfolio\<close> issues for the positions are issued from the
  callback of the snapshot insert, when \<open>db.serialize\<close> has already returned: the
  database runs them in parallel, in an order that the program does not fix.  That
  order is a parameter: \<open>rank i\<close> is the rank of the insert of the \<open>i\<close>-th position of
  the list, and inserts of equal rank run in the order of the list.
\<close>

definition arrange :: "(nat \<Rightarrow> nat) \<Rightarrow> 'a list \<Rightarrow> 'a list" where
  "arrange rank xs = map snd (sort_key (\<lambda>ix. rank (fst ix)) (enumerate 0 xs))"

text \<open>
  \<open>savePortfolio\<close>: the snapshot is inserted first, and a rejection of it rejects the
  promise.  The positions are then inserted outside any transaction: the first
  rejected insert rejects the promise with its error, while the snapshot and the
  other positions stay stored.  The promise is resolved with the id of the snapshot
  when the last insert has succeeded.
\<close>

definition savePortfolio ::
    "faults \<Rightarrow> (nat \<Rightarrow> nat) \<Rightarrow> PortfolioSnapshot \<Rightarrow> Position list \<Rightarrow> database
     \<Rightarrow> (error + nat) \<times> database" where
  "savePortfolio f rank snap ps d =
     (case snapshot_insert_error f snap of
        Some err \<Rightarrow> (Inl err, d)
      | None \<Rightarrow>
          (let snapshotId = lastID (portfolio_snapshots d);
               d1 = d\<lparr>portfolio_snapshots := portfolio_snapshots d @ [(snapshotId, snap)]\<rparr>;
               inserts = arrange rank ps;
               stored = filter (\<lambda>p. position_insert_error f p = None) inserts;
               d2 = d1\<lparr>positions_rows := positions_rows d1 @ map (Pair snapshotId) stored\<rparr>
           in (case List.map_filter (position_insert_error f) inserts of
                 [] \<Rightarrow> (Inr snapshotId, d2)
               | err # _ \<Rightarrow> (Inl err, d2))))"

text \<open>
  \<open>ORDER BY timestamp DESC LIMIT 1\<close>: a row with the greatest timestamp (of rows with
  equal timestamps, the one inserted last is taken here).
\<close>

definition latestRow :: "(nat \<times> PortfolioSnapshot) list \<Rightarrow> (nat \<times> PortfolioSnapshot) option" where
  "latestRow rows =
     foldl (\<lambda>best r. case best of
                        None \<Rightarrow> Some r
                      | Some b \<Rightarrow> if timestamp (snd b) \<le> timestamp (snd r) then Some r else Some b)
       None rows"

text \<open>
  \<open>getLatestSnapshot\<close> catches every error of its queries and returns \<open>null\<close> then.
  The positions it attaches to the row are left out: the engine reads the timestamp only.
\<close>

definition getLatestSnapshot :: "faults \<Rightarrow> database \<Rightarrow> (nat \<times> PortfolioSnapshot) option" where
  "getLatestSnapshot f d =
     (case query_error f of
        Some err \<Rightarrow> None
      | None \<Rightarrow> latestRow (portfolio_snapshots d))"

text \<open>A \<open>Set\<close> of strings keeps the order of insertion.\<close>

definition setAdd :: "jsstring list \<Rightarrow> jsstring \<Rightarrow> jsstring list" where
  "setAdd s x = (if x \<in> set s then s else s @ [x])"

definition newSet :: "jsstring list \<Rightarrow> jsstring list" where
  "newSet xs = foldl setAdd [] xs"

text \<open>
  The distinct values of \<open>copied_from\<close> of a snapshot that are neither \<open>NULL\<close> nor empty.
\<close>

definition copiedFromValues :: "nat \<Rightarrow> database \<Rightarrow> jsstring list" where
  "copiedFromValues snapshotId d =
     newSet (List.map_filter
       (\<lambda>r. if fst r = snapshotId then orNullString (copied_from (snd r)) else None)
       (positions_rows d))"

text \<open>\<open>getUniqueTraders\<close> of \<open>db.ts\<close> catches the error of its query and returns \<open>[]\<close>.\<close>

definition getUniqueTraders :: "faults \<Rightarrow> nat \<Rightarrow> database \<Rightarrow> jsstring list" where
  "getUniqueTraders f snapshotId d =
     (case query_error f of Some err \<Rightarrow> [] | None \<Rightarrow> copiedFromValues snapshotId d)"

definition saveCopyTradingEvent ::
    "faults \<Rightarrow> CopyTradingEvent \<Rightarrow> database \<Rightarrow> (error + nat) \<times> database" where
  "saveCopyTradingEvent f event d =
     (case event_insert_error f event of
        Some err \<Rightarrow> (Inl err, d)
      | None \<Rightarrow>
          (let eventId = lastID (copy_trading_events d)
           in (Inr eventId, d\<lparr>copy_trading_events := copy_trading_events d @ [(eventId, event)]\<rparr>)))"

text \<open>
  The quotient of two integers rounded to the nearest integer, a tie to the even one.
\<close>

definition roundHalfEven :: "int \<Rightarrow> int \<Rightarrow> int" where
  "roundHalfEven n d =
     (let q = n div d; r = n mod d
      in if 2 * r < d then q else if d < 2 * r then q + 1 else if even q then q else q + 1)"

text \<open>
  \<open>julianday\<close> of SQLite on a timestamp written by \<open>toISOString\<close>.  SQLite reads the
  text into a whole number of milliseconds since the Julian epoch, \<open>iJD\<close> (the Unix
  epoch is the Julian day 2440587.5, that is 210866760000000 ms), and returns the
  double nearest to \<open>iJD / 86400000.0\<close>.  \<open>toISOString\<close> writes a year outside
  0000..9999 with a sign and six digits, which SQLite does not read: the result is
  then \<open>NULL\<close>.  For the years 0000..9999 the Julian day lies between \<open>2^20\<close> and
  \<open>2^23\<close>, where a double has 32, 31 or 30 binary places after the point.
\<close>

definition julianday :: "int \<Rightarrow> rat option" where
  "julianday t =
     (if t < - 62167219200000 \<or> 253402300799999 < t then None
      else (let iJD = t + 210866760000000;
                places = (if iJD < 2 ^ 21 * 86400000 then 32
                          else if iJD < 2 ^ 22 * 86400000 then 31 else (30 :: nat))
            in Some (of_int (roundHalfEven (iJD * 2 ^ places) 86400000) / 2 ^ places)))"

text \<open>
  \<open>ABS(julianday(timestamp) - julianday(?)) * 24 * 60 < ?\<close>, the condition of the
  query; a comparison with \<open>NULL\<close> selects nothing.  The two Julian days are doubles
  with at most 32 binary places, so their difference is a multiple of \<open>2^-32\<close>: for
  a distance below \<open>2^15\<close> days the subtraction and the two products are exact in
  doubles, and for a greater distance the rounded result, which grows with the
  distance, stays far above the tolerance of five minutes that the callers pass.
  They are therefore written in exact arithmetic.
\<close>

definition withinTolerance :: "int \<Rightarrow> int \<Rightarrow> int \<Rightarrow> bool" where
  "withinTolerance stored ts toleranceMinutes =
     (case julianday stored of
        None \<Rightarrow> False
      | Some x \<Rightarrow>
          (case julianday ts of
             None \<Rightarrow> False
           | Some y \<Rightarrow> \<bar>x - y\<bar> * 24 * 60 < of_int toleranceMinutes))"

text \<open>
  \<open>snapshotExistsNearTimestamp\<close>: whether the query finds a row.  An error of the
  query is caught and answered with \<open>false\<close>.
\<close>

definition snapshotExistsNearTimestamp :: "faults \<Rightarrow> int \<Rightarrow> int \<Rightarrow> database \<Rightarrow> bool" where
  "snapshotExistsNearTimestamp f ts toleranceMinutes d =
     (case query_error f of
        Some err \<Rightarrow> False
      | None \<Rightarrow>
          list_ex (\<lambda>r. withinTolerance (timestamp (snd r)) ts toleranceMinutes)
            (portfolio_snapshots d))"

section \<open>The reconciliation engine of the Express server (\<open>index.ts\<close>)\<close>

text \<open>
  The state of the module: the variable \<open>lastKnownTraders\<close>, the database behind the
  storage functions, and what was written to the console by the detection.
\<close>

datatype log = NewCopier jsstring | RemovedCopier jsstring | DetectionError error

record engine =
  lastKnownTraders :: "jsstring list"
  store :: database
  console :: "log list"

text \<open>The traders of the parsed positions: the trimmed, non-empty \<open>copied_from\<close> values.\<close>

definition currentTradersOf :: "Position list \<Rightarrow> jsstring list" where
  "currentTradersOf ps =
     foldl (\<lambda>currentTraders p.
              case copied_from p of
                None \<Rightarrow> currentTraders
              | Some c \<Rightarrow> if c \<noteq> [] \<and> trim c \<noteq> [] then setAdd currentTraders (trim c)
                          else currentTraders)
       [] ps"

definition addedEvent :: "int \<Rightarrow> jsstring \<Rightarrow> CopyTradingEvent" where
  "addedEvent ts trader =
     \<lparr>e_timestamp = ts, event_type = copier_added,
      description = js ''Started copying '' @ trader, trader_name = Some trader\<rparr>"

definition removedEvent :: "int \<Rightarrow> jsstring \<Rightarrow> CopyTradingEvent" where
  "removedEvent ts trader =
     \<lparr>e_timestamp = ts, event_type = copier_removed,
      description = js ''Stopped copying '' @ trader, trader_name = Some trader\<rparr>"

text \<open>
  One of the two \<open>for\<close> loops that save an event per trader and log it.  A rejected
  save raises: the loop ends there, and the error is returned with the state reached.
\<close>

fun saveEvents :: "faults \<Rightarrow> (jsstring \<Rightarrow> CopyTradingEvent) \<Rightarrow> (jsstring \<Rightarrow> log)
    \<Rightarrow> jsstring list \<Rightarrow> engine \<Rightarrow> error option \<times> engine" where
  "saveEvents f mk lg [] st = (None, st)"
| "saveEvents f mk lg (trader # traders) st =
     (case saveCopyTradingEvent f (mk trader) (store st) of
        (Inl err, d) \<Rightarrow> (Some err, st\<lparr>store := d\<rparr>)
      | (Inr eventId, d) \<Rightarrow>
          saveEvents f mk lg traders (st\<lparr>store := d, console := console st @ [lg trader]\<rparr>))"

text \<open>
  \<open>detectCopyTradingChanges(snapshotId, positions)\<close> of \<open>index.ts\<close>.  Its whole body
  is one \<open>try\<close> block whose handler logs the error, so it always returns.
\<close>

definition detectCopyTradingChanges :: "faults \<Rightarrow> nat \<Rightarrow> Position list \<Rightarrow> engine \<Rightarrow> engine" where
  "detectCopyTradingChanges f snapshotId ps st =
     (let currentTraders = currentTradersOf ps in
      if length (lastKnownTraders st) > 0 then
        (let added = filter (\<lambda>t. t \<notin> set (lastKnownTraders st)) currentTraders;
             removed = filter (\<lambda>t. t \<notin> set currentTraders) (lastKnownTraders st)
         in case getLatestSnapshot f (store st) of
              None \<Rightarrow> st\<lparr>lastKnownTraders := currentTraders\<rparr>
            | Some row \<Rightarrow>
                (case saveEvents f (addedEvent (timestamp (snd row))) NewCopier added st of
                   (Some err, st1) \<Rightarrow> st1\<lparr>console := console st1 @ [DetectionError err]\<rparr>
                 | (None, st1) \<Rightarrow>
                     (case saveEvents f (removedEvent (timestamp (snd row))) RemovedCopier
                             removed st1 of
                        (Some err, st2) \<Rightarrow> st2\<lparr>console := console st2 @ [DetectionError err]\<rparr>
                      | (None, st2) \<Rightarrow> st2\<lparr>lastKnownTraders := currentTraders\<rparr>)))
      else st\<lparr>lastKnownTraders := currentTraders\<rparr>)"

text \<open>
  The two statements that \<open>/api/refresh\<close> and \<open>autoRefresh\<close> run on a parsed reply:
  \<open>savePortfolio\<close>, then \<open>detectCopyTradingChanges\<close>.  An error of \<open>savePortfolio\<close>
  leaves them at once and reaches the handler of the caller.
\<close>

definition reconcile ::
    "faults \<Rightarrow> (nat \<Rightarrow> nat) \<Rightarrow> PortfolioSnapshot \<Rightarrow> Position list \<Rightarrow> engine
     \<Rightarrow> (error + nat) \<times> engine" where
  "reconcile f rank snap ps st =
     (case savePortfolio f rank snap ps (store st) of
        (Inl err, d) \<Rightarrow> (Inl err, st\<lparr>store := d\<rparr>)
      | (Inr snapshotId, d) \<Rightarrow>
          (Inr snapshotId, detectCopyTradingChanges f snapshotId ps (st\<lparr>store := d\<rparr>)))"

section \<open>The reconciliation engine of the Next.js application\<close>

text \<open>
  The refresh route and the scheduler of the Next.js application hold the same
  \<open>detectCopyTradingChanges(snapshotId)\<close>.  It differs from the one of \<open>index.ts\<close>: the
  traders are read back from the database, there is no test of the size of
  \<open>lastKnownTraders\<close>, every event is stamped with its own \<open>new Date()\<close>, the console
  line is written before the event is saved, and nothing is caught.  The storage
  functions it imports are those of the Prisma module, which do not catch the errors
  of their queries.  The clock is a parameter: \<open>clock n\<close> is what the \<open>n\<close>-th
  \<open>new Date()\<close> of the pass reads, counted from 0.
\<close>

definition getUniqueTraders_lib :: "faults \<Rightarrow> nat \<Rightarrow> database \<Rightarrow> error + jsstring list" where
  "getUniqueTraders_lib f snapshotId d =
     (case query_error f of Some err \<Rightarrow> Inl err | None \<Rightarrow> Inr (copiedFromValues snapshotId d))"

text \<open>The nested \<open>create\<close> of Prisma stores the snapshot and its positions, or nothing.\<close>

definition savePortfolio_lib ::
    "faults \<Rightarrow> PortfolioSnapshot \<Rightarrow> Position list \<Rightarrow> database \<Rightarrow> (error + nat) \<times> database" where
  "savePortfolio_lib f snap ps d =
     (case snapshot_insert_error f snap of
        Some err \<Rightarrow> (Inl err, d)
      | None \<Rightarrow>
          (case List.map_filter (position_insert_error f) ps of
             err # _ \<Rightarrow> (Inl err, d)
           | [] \<Rightarrow>
               (let snapshotId = lastID (portfolio_snapshots d)
                in (Inr snapshotId,
                    d\<lparr>portfolio_snapshots := portfolio_snapshots d @ [(snapshotId, snap)],
                      positions_rows := positions_rows d @ map (Pair snapshotId) ps\<rparr>))))"

text \<open>
  One of its two loops: for each trader that passes the test \<open>changed\<close>, the console line
  and then the event, stamped with a new reading of the clock.  The number \<open>n\<close> counts
  the readings made so far in the pass.
\<close>

fun saveEvents_route :: "faults \<Rightarrow> (jsstring \<Rightarrow> bool) \<Rightarrow> (int \<Rightarrow> jsstring \<Rightarrow> CopyTradingEvent)
    \<Rightarrow> (jsstring \<Rightarrow> log) \<Rightarrow> (nat \<Rightarrow> int) \<Rightarrow> jsstring list \<Rightarrow> nat \<Rightarrow> engine
    \<Rightarrow> error option \<times> nat \<times> engine" where
  "saveEvents_route f changed mk lg clock [] n st = (None, n, st)"
| "saveEvents_route f changed mk lg clock (trader # traders) n st =
     (if changed trader then
        (let st1 = st\<lparr>console := console st @ [lg trader]\<rparr> in
         case saveCopyTradingEvent f (mk (clock n) trader) (store st1) of
           (Inl err, d) \<Rightarrow> (Some err, Suc n, st1\<lparr>store := d\<rparr>)
         | (Inr eventId, d) \<Rightarrow>
             saveEvents_route f changed mk lg clock traders (Suc n) (st1\<lparr>store := d\<rparr>))
      else saveEvents_route f changed mk lg clock traders n st)"

definition detectCopyTradingChanges_route ::
    "faults \<Rightarrow> (nat \<Rightarrow> int) \<Rightarrow> nat \<Rightarrow> engine \<Rightarrow> error option \<times> engine" where
  "detectCopyTradingChanges_route f clock snapshotId st =
     (case getUniqueTraders_lib f snapshotId (store st) of
        Inl err \<Rightarrow> (Some err, st)
      | Inr currentTraders \<Rightarrow>
          (let currentSet = newSet currentTraders in
           case saveEvents_route f (\<lambda>t. t \<notin> set (lastKnownTraders st))
                  addedEvent NewCopier clock currentTraders 0 st of
             (Some err, n1, st1) \<Rightarrow> (Some err, st1)
           | (None, n1, st1) \<Rightarrow>
               (case saveEvents_route f (\<lambda>t. t \<notin> set currentSet)
                       removedEvent RemovedCopier clock (lastKnownTraders st) n1 st1 of
                  (Some err, n2, st2) \<Rightarrow> (Some err, st2)
                | (None, n2, st2) \<Rightarrow> (None, st2\<lparr>lastKnownTraders := currentSet\<rparr>))))"

text \<open>\<open>savePortfolio\<close>, then \<open>detectCopyTradingChanges\<close>, as the route runs them.\<close>

definition reconcile_route ::
    "faults \<Rightarrow> (nat \<Rightarrow> int) \<Rightarrow> PortfolioSnapshot \<Rightarrow> Position list \<Rightarrow> engine
     \<Rightarrow> (error + nat) \<times> engine" where
  "reconcile_route f clock snap ps st =
     (case savePortfolio_lib f snap ps (store st) of
        (Inl err, d) \<Rightarrow> (Inl err, st\<lparr>store := d\<rparr>)
      | (Inr snapshotId, d) \<Rightarrow>
          (case detectCopyTradingChanges_route f clock snapshotId (st\<lparr>store := d\<rparr>) of
             (Some err, st') \<Rightarrow> (Inl err, st')
           | (None, st') \<Rightarrow> (Inr snapshotId, st')))"

section \<open>The historical backfill of \<open>index.ts\<close>\<close>

record message =
  msg_text :: jsstring
  msg_date :: date
  msg_id :: nat

record counts =
  saved :: nat
  skipped :: nat
  errors :: nat

text \<open>\<open>x > 0\<close> for a number: false for \<open>NaN\<close>.\<close>

definition positive :: "number \<Rightarrow> bool" where
  "positive x = (case x of NaN \<Rightarrow> False | Num v \<Rightarrow> v > 0)"

text \<open>
  \<open>parsed.snapshot.total_balance > 0 || parsed.positions.length > 0 ||
  parsed.snapshot.total_positions\<close>, the test before a parsed message is saved.
\<close>

definition hasValidData :: "ParsedPortfolio \<Rightarrow> bool" where
  "hasValidData parsed \<longleftrightarrow>
     positive (total_balance (snapshot parsed)) \<or> length (positions parsed) > 0
     \<or> total_positions (snapshot parsed) \<noteq> 0"

text \<open>
  The body of the loop over the messages: everything raised inside it is caught and
  counted as an error.  The parser is given the date of the message, so the clock
  \<open>now\<close> is never read.
\<close>

definition processMessage ::
    "faults \<Rightarrow> (nat \<Rightarrow> nat) \<Rightarrow> int \<Rightarrow> message \<Rightarrow> database \<times> counts \<Rightarrow> database \<times> counts" where
  "processMessage f rank now msg dc =
     (let d = fst dc; c = snd dc in
      case toISOString (msg_date msg) of
        Inl err \<Rightarrow> (d, c\<lparr>errors := errors c + 1\<rparr>)
      | Inr isoString \<Rightarrow>
          if snapshotExistsNearTimestamp f isoString 5 d then (d, c\<lparr>skipped := skipped c + 1\<rparr>)
          else
            (case parsePortfolioResponse now (msg_text msg) (Some (msg_date msg)) of
               Inl err \<Rightarrow> (d, c\<lparr>errors := errors c + 1\<rparr>)
             | Inr parsed \<Rightarrow>
                 if hasValidData parsed then
                   (case savePortfolio f rank (snapshot parsed) (positions parsed) d of
                      (Inl err, d') \<Rightarrow> (d', c\<lparr>errors := errors c + 1\<rparr>)
                    | (Inr snapshotId, d') \<Rightarrow> (d', c\<lparr>saved := saved c + 1\<rparr>))
                 else (d, c\<lparr>skipped := skipped c + 1\<rparr>)))"

text \<open>
  \<open>messages.reverse()\<close>, then the loop, with the three counters at zero; \<open>ranks msg\<close>
  is the order in which the database runs the position inserts of the message \<open>msg\<close>.
\<close>

definition historicalFetch ::
    "faults \<Rightarrow> (message \<Rightarrow> nat \<Rightarrow> nat) \<Rightarrow> int \<Rightarrow> message list \<Rightarrow> database \<Rightarrow> database \<times> counts" where
  "historicalFetch f ranks now messages d =
     foldl (\<lambda>dc msg. processMessage f (ranks msg) now msg dc)
       (d, \<lparr>saved = 0, skipped = 0, errors = 0\<rparr>) (rev messages)"

section \<open>Notions used in the statements\<close>

text \<open>
  The groups of an expression that take part in every match of it: a group inside an
  optional part or inside one side only of an alternation is not among them.
\<close>

fun mandatory :: "rx \<Rightarrow> nat set" where
  "mandatory (Grp n a) = insert n (mandatory a)"
| "mandatory (Seq a b) = mandatory a \<union> mandatory b"
| "mandatory (Alt a b) = mandatory a \<inter> mandatory b"
| "mandatory _ = {}"

text \<open>An amount that is a number and not negative, and the four amounts of a snapshot.\<close>

definition nonNegative :: "number \<Rightarrow> bool" where
  "nonNegative x = (case x of NaN \<Rightarrow> False | Num v \<Rightarrow> v \<ge> 0)"

definition balancesNonNegative :: "PortfolioSnapshot \<Rightarrow> bool" where
  "balancesNonNegative snap \<longleftrightarrow>
     nonNegative (total_balance snap) \<and> nonNegative (available_balance snap)
     \<and> nonNegative (s_invested snap) \<and> nonNegative (s_value snap)"

definition sameBalances :: "PortfolioSnapshot \<Rightarrow> PortfolioSnapshot \<Rightarrow> bool" where
  "sameBalances a b \<longleftrightarrow>
     total_balance a = total_balance b \<and> available_balance a = available_balance b
     \<and> s_invested a = s_invested b \<and> s_value a = s_value b"

section \<open>Example texts\<close>

definition copiedMessage :: jsstring where
  "copiedMessage = joinLines [js ''#1. Will X happen?'', js ''Copied from: alice'']"

definition roundTripLines :: "jsstring list" where
  "roundTripLines =
     [js ''Total Balance: $90.20'', js ''Available Balance: $12.50'', js ''Invested: $77.70'',
      js ''Value: $80.00'', js ''Total PNL: -$15.19 (-0.02%)'', js ''#1. Will X happen?'',
      js ''Side: Yes'', js ''Entry: 0.45'', js ''Invested: $50.00'', js ''Shares: 111'',
      js ''Value: $55.00'', js ''PNL: $5.00 (10.00%)'', js ''Copied from: trader_a'']"

definition roundTripMessage :: jsstring where
  "roundTripMessage = joinLines roundTripLines"

definition controlPre :: "jsstring list" where
  "controlPre = [js ''#1. Will A win?'', js ''Shares: 111'']"

definition controlLine :: jsstring where
  "controlLine = js ''#2. Will the next election be contested?''"

definition controlPost :: "jsstring list" where
  "controlPost = [js ''Shares: 5'', js ''#3. Will B win?'']"

definition controlText :: jsstring where
  "controlText = joinLines (controlPre @ controlLine # controlPost)"

definition positionA :: Position where
  "positionA =
     \<lparr>market_question = js ''Will A win?'', side = Yes, entry_price = Num 0,
      p_invested = Num 0, shares = Num 111, p_value = Num 0, pnl_usd = Num 0,
      pnl_pct = Num 0, expiry_timestamp = None, copied_from = None\<rparr>"

definition balanceMessage :: jsstring where
  "balanceMessage =
     joinLines [js ''Total Balance: $1,234.56'', js ''#1. Will it rain tomorrow?'',
                js ''Copied from: trader_a'']"

definition negativeText :: jsstring where
  "negativeText = joinLines [js ''Total Balance: -5'', js ''Total PNL: -$15.19 (-0.02%)'']"

definition pnlText :: jsstring where
  "pnlText = joinLines [js ''#1. Will X happen?'', js ''PNL: 5.00 (-10.00%)'']"

definition fallbackPnlText :: jsstring where
  "fallbackPnlText = js ''Total PNL: -$15.19''"

definition copiedBeforeControl :: jsstring where
  "copiedBeforeControl =
     joinLines [js ''#1. Will A win?'', js ''Shares: 111'', js ''#2. Will B win?'',
                js ''Copied from: alice'', js ''Refresh'']"

section \<open>Notions used in the statements about the engine\<close>

text \<open>An event that the database does not reject, and the error of the first rejected event of a list.\<close>

definition accepted :: "faults \<Rightarrow> CopyTradingEvent \<Rightarrow> bool" where
  "accepted f ev \<longleftrightarrow> event_insert_error f ev = None"

definition firstRejection :: "faults \<Rightarrow> CopyTradingEvent list \<Rightarrow> error option" where
  "firstRejection f evs =
     (case dropWhile (accepted f) evs of [] \<Rightarrow> None | ev # _ \<Rightarrow> event_insert_error f ev)"

text \<open>The events of the event table in order, without their ids.\<close>

definition savedEvents :: "database \<Rightarrow> CopyTradingEvent list" where
  "savedEvents d = map snd (copy_trading_events d)"

text \<open>The database after the events of a list have been inserted one after the other.\<close>

definition appendEvents :: "CopyTradingEvent list \<Rightarrow> database \<Rightarrow> database" where
  "appendEvents evs d =
     foldl (\<lambda>d ev. d\<lparr>copy_trading_events :=
                        copy_trading_events d @ [(lastID (copy_trading_events d), ev)]\<rparr>) d evs"






text \<open>
  The timestamps that SQLite reads: those that \<open>toISOString\<close> writes with a year of
  four digits, from 0000-01-01T00:00:00.000Z to 9999-12-31T23:59:59.999Z.
\<close>

definition fourDigitYear :: "int \<Rightarrow> bool" where
  "fourDigitYear t \<longleftrightarrow> - 62167219200000 \<le> t \<and> t \<le> 253402300799999"

text \<open>The database accepts a snapshot and every one of its positions.\<close>

definition acceptsPortfolio :: "faults \<Rightarrow> PortfolioSnapshot \<Rightarrow> Position list \<Rightarrow> bool" where
  "acceptsPortfolio f snap ps \<longleftrightarrow>
     snapshot_insert_error f snap = None \<and> list_all (\<lambda>p. position_insert_error f p = None) ps"

section \<open>Example states and messages\<close>

definition alice :: jsstring where "alice = js ''alice''"
definition bob :: jsstring where "bob = js ''bob''"
definition carol :: jsstring where "carol = js ''carol''"

definition emptyDatabase :: database where
  "emptyDatabase = \<lparr>portfolio_snapshots = [], positions_rows = [], copy_trading_events = []\<rparr>"

definition freshEngine :: engine where
  "freshEngine = \<lparr>lastKnownTraders = [], store = emptyDatabase, console = []\<rparr>"

definition snapshotAt :: "int \<Rightarrow> PortfolioSnapshot" where
  "snapshotAt t =
     \<lparr>total_balance = Num 100, available_balance = Num 10, s_invested = Num 90,
      s_value = Num 90, total_pnl_usd = Num 0, total_pnl_pct = Num 0, timestamp = t,
      total_positions = 0\<rparr>"

definition copiedPosition :: "jsstring \<Rightarrow> Position" where
  "copiedPosition trader =
     \<lparr>market_question = js ''Will X happen?'', side = Yes, entry_price = Num 0,
      p_invested = Num 0, shares = Num 0, p_value = Num 0, pnl_usd = Num 0, pnl_pct = Num 0,
      expiry_timestamp = None, copied_from = Some trader\<rparr>"

definition rejectCarol :: faults where
  "rejectCarol =
     no_faults\<lparr>event_insert_error :=
       (\<lambda>ev. if trader_name ev = Some carol then Some (StorageError 1) else None)\<rparr>"

definition knownEngine :: engine where
  "knownEngine =
     \<lparr>lastKnownTraders = [alice, bob],
      store = \<lparr>portfolio_snapshots = [(1, snapshotAt 1000)],
               positions_rows = [(1, copiedPosition alice), (1, copiedPosition bob)],
               copy_trading_events = []\<rparr>,
      console = []\<rparr>"





definition failingQueries :: faults where
  "failingQueries = no_faults\<lparr>query_error := Some (StorageError 3)\<rparr>"

text \<open>The inserts run in the order of the list.\<close>

definition inOrder :: "nat \<Rightarrow> nat" where
  "inOrder i = i"

text \<open>A clock that advances by one millisecond from one reading to the next.\<close>

definition ticking :: "int \<Rightarrow> nat \<Rightarrow> int" where
  "ticking t n = t + int n"

definition oneSnapshot :: database where
  "oneSnapshot = emptyDatabase\<lparr>portfolio_snapshots := [(1, snapshotAt 0)]\<rparr>"

definition noCounts :: counts where
  "noCounts = \<lparr>saved = 0, skipped = 0, errors = 0\<rparr>"

definition balanceReport :: "int \<Rightarrow> message" where
  "balanceReport t = \<lparr>msg_text = js ''Total Balance: $90.20'', msg_date = Date t, msg_id = 2\<rparr>"

definition emptyReport :: "int \<Rightarrow> message" where
  "emptyReport t = \<lparr>msg_text = js ''Total Balance: $0.00'', msg_date = Date t, msg_id = 3\<rparr>"

definition balanceParsed :: "int \<Rightarrow> ParsedPortfolio" where
  "balanceParsed t =
     \<lparr>snapshot =
        \<lparr>total_balance = Num (902 / 10), available_balance = Num 0, s_invested = Num 0,
         s_value = Num 0, total_pnl_usd = Num 0, total_pnl_pct = Num 0, timestamp = t,
         total_positions = 0\<rparr>,
      positions = []\<rparr>"

definition emptyParsed :: "int \<Rightarrow> ParsedPortfolio" where
  "emptyParsed t =
     \<lparr>snapshot =
        \<lparr>total_balance = Num 0, available_balance = Num 0, s_invested = Num 0,
         s_value = Num 0, total_pnl_usd = Num 0, total_pnl_pct = Num 0, timestamp = t,
         total_positions = 0\<rparr>,
      positions = []\<rparr>"

section \<open>Evaluation\<close>

text \<open>
  The definitions that the simplifier unfolds to run the parser on a concrete text.
\<close>

lemmas parser_eval =
  js_def isWhiteSpace_def isLineTerminator_def isDigit_def startsWith_def trim_def
  toLowerCase_def match_def matches_def removeFirst_def removeCommas_def chr_def chrI_def
  lit_def litI_def starCls_def plusCls_def isSign_def digitOrComma_def amountRx_def
  signedAmountRx_def numberedRx_def numberPrefixRx_def pageButtonRx_def headerRx_def
  totalPnlRx_def positionPnlRx_def bulletInvestedRx_def checkmarkRx_def isoDateRx_def
  otherDateRx_def textAfterRx_def digitsValue_def parseFloat_def orNull_def orZero_def
  orZeroString_def orNullString_def timesNum_def group_def extractNumber_def
  extractDate_def extractTextAfter_def toISOString_def isPositionHeader_def
  summaryLine_def isControlLine_def isNonMarketRow_def startsPosition_def saysNo_def
  newPosition_def pushCurrent_def detailLine_def positionLine_def splitLines_def
  headerCount_def joinLines_def searchFrom.simps Let_def

section \<open>The parser raises on a line that names the copied trader\<close>

text \<open>
  \<open>extractTextAfter\<close> on a detail line that contains \<open>copied\<close> or \<open>from\<close>: the
  expression matches with its first or second alternative, group 1 is undefined, and
  \<open>match[1].trim()\<close> raises.
\<close>

lemma extractTextAfter_copied_from:
  "extractTextAfter (js ''Copied from: trader_a'') = Inl TypeError"
  by (simp add: parser_eval)

lemma extractTextAfter_copy_trade_by:
  "extractTextAfter (js ''Copy trade by: trader_a'') = Inr (Some (js ''trader_a''))"
  by (simp add: parser_eval)

text \<open>
  C1.  The claim: for every text and every optional timestamp the parser returns a
  result and raises nothing, in particular for texts whose detail lines contain
  \<open>copied\<close> or \<open>from\<close>.  The code: on the two-line text \<open>#1. Will X happen?\<close>,
  \<open>Copied from: alice\<close> the parser raises a \<open>TypeError\<close>, with the timestamp left
  out and with any valid timestamp given.
\<close>

theorem parser_raises_on_copied_line:
  "parsePortfolioResponse now copiedMessage None = Inl TypeError
   \<and> parsePortfolioResponse now copiedMessage (Some (Date t)) = Inl TypeError"
  by (simp add: copiedMessage_def parsePortfolioResponse_def parser_eval)

section \<open>The round-trip message of the specification\<close>

lemma roundTrip_splitLines: "splitLines roundTripMessage = roundTripLines"
  by (simp add: roundTripMessage_def roundTripLines_def parser_eval)

lemma roundTrip_summaryPass:
  "summaryPass roundTripLines snap =
     Inr (snap\<lparr>total_balance := Num (902 / 10), available_balance := Num (125 / 10),
               s_invested := Num (777 / 10), s_value := Num 80,
               total_pnl_usd := Num (- (1519 / 100)), total_pnl_pct := Num (- (2 / 100))\<rparr>)"
  by (simp add: roundTripLines_def parser_eval)

lemma roundTrip_positionsPass:
  "positionsPass roundTripLines
     \<lparr>pushed = [], currentPosition = None, inPositionsSection = False\<rparr> = Inl TypeError"
  by (simp add: roundTripLines_def parser_eval)

text \<open>
  C2.  The claim: parsing the thirteen-line message yields the snapshot
  90.20 / 12.50 / 77.70 / 80.00 / -15.19 / -0.02 and one position with the question
  \<open>Will X happen?\<close>, side Yes, entry price 0.45 and \<open>copiedFrom\<close> \<open>trader_a\<close>.  The
  code: the first pass computes that snapshot (\<open>roundTrip_summaryPass\<close>), but the second
  pass raises a \<open>TypeError\<close> on the last line, so the parser returns nothing.
\<close>

theorem round_trip_message_raises:
  "parsePortfolioResponse now roundTripMessage None = Inl TypeError
   \<and> parsePortfolioResponse now roundTripMessage (Some (Date t)) = Inl TypeError"
  by (simp add: parsePortfolioResponse_def roundTrip_splitLines roundTrip_summaryPass
      roundTrip_positionsPass toISOString_def)

section \<open>The parse does not depend on the clock when a timestamp is given\<close>

text \<open>
  C9.  Two calls of the parser with the same text and the same explicit timestamp
  give the same outcome (the same snapshot and positions, or the same exception),
  whatever the wall clock shows at each call.
\<close>

theorem parse_deterministic_with_timestamp:
  "parsePortfolioResponse now1 text (Some ts) = parsePortfolioResponse now2 text (Some ts)"
  by (simp add: parsePortfolioResponse_def)




section \<open>Every exception of the parser comes from \<open>extractTextAfter\<close> or the date\<close>

lemma rep_result:
  "rep p lo hi k i s c = Some r \<Longrightarrow> \<exists>st. k st = Some r \<and> caps st = c"
proof (induction p lo hi k i s c rule: rep.induct)
  case (1 p lo hi k i c)
  then show ?case by (auto split: if_splits)
next
  case (2 p lo hi k i x xs c)
  then show ?case
    by (fastforce split: if_splits option.splits)
qed

lemma rmatch_result:
  "rmatch a k st = Some r \<Longrightarrow> \<exists>s. k s = Some r \<and> dom (caps st) \<union> mandatory a \<subseteq> dom (caps s)"
proof (induction a arbitrary: k st)
  case (Cls p)
  then show ?case by (auto split: list.splits if_splits)
next
  case (Seq a b)
  from Seq.prems have "rmatch a (rmatch b k) st = Some r" by simp
  from Seq.IH(1)[OF this] obtain s1 where
    s1: "rmatch b k s1 = Some r" "dom (caps st) \<union> mandatory a \<subseteq> dom (caps s1)" by blast
  from Seq.IH(2)[OF s1(1)] obtain s2 where
    s2: "k s2 = Some r" "dom (caps s1) \<union> mandatory b \<subseteq> dom (caps s2)" by blast
  from s1(2) s2(2) have "dom (caps st) \<union> mandatory (Seq a b) \<subseteq> dom (caps s2)"
    by (simp add: subset_iff)
  with s2(1) show ?case by blast
next
  case (Alt a b)
  show ?case
  proof (cases "rmatch a k st")
    case None
    with Alt.prems have "rmatch b k st = Some r" by simp
    from Alt.IH(2)[OF this] show ?thesis by auto
  next
    case (Some r')
    with Alt.prems have "rmatch a k st = Some r" by simp
    from Alt.IH(1)[OF this] show ?thesis by auto
  qed
next
  case (Opt a)
  show ?case
  proof (cases "rmatch a k st")
    case None
    with Opt.prems have "k st = Some r" by simp
    then show ?thesis by auto
  next
    case (Some r')
    with Opt.prems have "rmatch a k st = Some r" by simp
    from Opt.IH[OF this] show ?thesis by auto
  qed
next
  case (Rep lo hi p)
  then have "rep p lo hi k (pos st) (rest st) (caps st) = Some r" by simp
  from rep_result[OF this] show ?case by auto
next
  case (Grp n a)
  let ?k = "\<lambda>st'. k (st'\<lparr>caps := (caps st')(n \<mapsto> take (pos st' - pos st) (rest st))\<rparr>)"
  from Grp.prems have "rmatch a ?k st = Some r" by simp
  from Grp.IH[OF this] obtain s1 where
    s1: "?k s1 = Some r" "dom (caps st) \<union> mandatory a \<subseteq> dom (caps s1)" by blast
  show ?case
    by (rule exI[of _ "s1\<lparr>caps := (caps s1)(n \<mapsto> take (pos s1 - pos st) (rest st))\<rparr>"])
       (use s1 in auto)
next
  case Bol
  then show ?case by (auto split: if_splits)
next
  case Eol
  then show ?case by (auto split: if_splits)
next
  case Eps
  then show ?case by auto
qed

lemma searchFrom_groups:
  "searchFrom a i s = Some m \<Longrightarrow> mandatory a \<subseteq> dom (m_group m)"
proof (induction s arbitrary: i)
  case Nil
  then show ?case
    by (auto simp: searchFrom.simps split: option.splits dest!: rmatch_result)
next
  case (Cons x xs)
  show ?case
  proof (cases "rmatch a Some \<lparr>pos = i, rest = x # xs, caps = Map.empty\<rparr>")
    case None
    with Cons.prems have "searchFrom a (Suc i) xs = Some m" by (simp add: searchFrom.simps)
    from Cons.IH[OF this] show ?thesis .
  next
    case (Some st)
    with Cons.prems have m: "m_group m = caps st" by (auto simp: searchFrom.simps)
    from rmatch_result[OF Some] have "mandatory a \<subseteq> dom (caps st)" by auto
    with m show ?thesis by simp
  qed
qed

lemma match_groups: "match s a = Some m \<Longrightarrow> n \<in> mandatory a \<Longrightarrow> \<exists>g. group m n = Inr g"
proof -
  assume m: "match s a = Some m" and n: "n \<in> mandatory a"
  from m have "mandatory a \<subseteq> dom (m_group m)"
    unfolding match_def by (rule searchFrom_groups)
  with n obtain g where "m_group m n = Some g" by auto
  then show ?thesis by (simp add: group_def)
qed

lemma extractNumber_returns: "\<exists>v. extractNumber text = Inr v"
proof (cases "match text (Grp 1 signedAmountRx)")
  case None
  then show ?thesis by (simp add: extractNumber_def)
next
  case (Some m)
  from match_groups[OF Some, of 1] obtain g where "group m 1 = Inr g" by auto
  with Some show ?thesis by (simp add: extractNumber_def)
qed


lemma totalPnlRx_groups: "2 \<in> mandatory totalPnlRx" "4 \<in> mandatory totalPnlRx"
  by (simp_all add: totalPnlRx_def chr_def starCls_def plusCls_def amountRx_def)

lemma positionPnlRx_groups: "1 \<in> mandatory positionPnlRx" "2 \<in> mandatory positionPnlRx"
  by (simp_all add: positionPnlRx_def chr_def starCls_def plusCls_def amountRx_def signedAmountRx_def)

lemma summaryLine_returns: "\<exists>snap'. summaryLine line snap = Inr snap'"
proof -
  obtain v where v: "extractNumber line = Inr v"
    using extractNumber_returns by blast
  show ?thesis
  proof (cases "match line totalPnlRx")
    case None
    with v show ?thesis
      by (cases v) (simp_all add: summaryLine_def Let_def)
  next
    case (Some m)
    obtain g2 g4 where "group m 2 = Inr g2" "group m 4 = Inr g4"
      using match_groups[OF Some] totalPnlRx_groups by blast
    with v Some show ?thesis
      by (cases v) (simp_all add: summaryLine_def Let_def)
  qed
qed

lemma summaryPass_returns: "\<exists>snap'. summaryPass lines snap = Inr snap'"
proof (induction lines arbitrary: snap)
  case Nil
  show ?case by simp
next
  case (Cons line lines)
  obtain s1 where "summaryLine line snap = Inr s1"
    using summaryLine_returns by blast
  with Cons.IH[of s1] show ?case by simp
qed



section \<open>Control lines end the second pass\<close>

lemma positionLine_keeps_section:
  "positionLine line st = Inr st' \<Longrightarrow> inPositionsSection st \<or> isPositionHeader line
   \<Longrightarrow> inPositionsSection st'"
  by (auto simp: positionLine_def Let_def split: if_splits option.splits sum.splits)

lemma positionsPass_control:
  "isControlLine ctl \<Longrightarrow> inPositionsSection st \<or> (\<exists>h\<in>set pre. isPositionHeader h)
   \<Longrightarrow> positionsPass (pre @ ctl # post) st = positionsPass pre st"
proof (induction pre arbitrary: st)
  case Nil
  then show ?case by simp
next
  case (Cons line pre)
  show ?case
  proof (cases "inPositionsSection st \<and> isControlLine line")
    case True
    then show ?thesis by simp
  next
    case False
    show ?thesis
    proof (cases "positionLine line st")
      case (Inl e)
      with False show ?thesis by simp
    next
      case (Inr st')
      have "inPositionsSection st' \<or> (\<exists>h\<in>set pre. isPositionHeader h)"
        using Cons.prems(2) positionLine_keeps_section[OF Inr] by auto
      from Cons.IH[OF Cons.prems(1) this] Inr False show ?thesis by auto
    qed
  qed
qed

lemma summaryPass_header:
  "\<exists>h\<in>set pre. isPositionHeader h \<Longrightarrow> summaryPass (pre @ post) snap = summaryPass pre snap"
proof (induction pre arbitrary: snap)
  case Nil
  then show ?case by simp
next
  case (Cons line pre)
  show ?case
  proof (cases "isPositionHeader line")
    case True
    then show ?thesis by simp
  next
    case False
    with Cons.prems have "\<exists>h\<in>set pre. isPositionHeader h" by simp
    from Cons.IH[OF this] False show ?thesis
      by (simp split: sum.splits)
  qed
qed

text \<open>
  When nothing raises before it, a control line that follows the first line of a
  position ends the second pass for the whole message: the parser returns, and the
  positions it returns are those pushed before the control line together with the
  position open at that moment, if its market question is not empty.
\<close>

lemma control_line_returns_accumulated:
  assumes "splitLines text = pre @ ctl # post"
    and "\<exists>h\<in>set pre. isPositionHeader h"
    and "isControlLine ctl"
    and "positionsPass pre \<lparr>pushed = [], currentPosition = None, inPositionsSection = False\<rparr> = Inr st"
    and "ts \<noteq> Some InvalidDate"
  shows "\<exists>snap. parsePortfolioResponse now text ts = Inr \<lparr>snapshot = snap, positions = pushCurrent st\<rparr>"
proof -
  let ?init = "\<lparr>pushed = [], currentPosition = None, inPositionsSection = False\<rparr>"
  have pos: "positionsPass (splitLines text) ?init = Inr st"
    using positionsPass_control[OF assms(3), of ?init pre post] assms(1,2,4) by simp
  have "\<exists>iso. toISOString (case ts of Some d \<Rightarrow> d | None \<Rightarrow> Date now) = Inr iso"
    using assms(5) by (cases ts) (auto simp: toISOString_def split: date.splits)
  then obtain iso where iso: "toISOString (case ts of Some d \<Rightarrow> d | None \<Rightarrow> Date now) = Inr iso"
    by blast
  obtain snap where
    "summaryPass (splitLines text)
       \<lparr>total_balance = Num 0, available_balance = Num 0, s_invested = Num 0, s_value = Num 0,
        total_pnl_usd = Num 0, total_pnl_pct = Num 0, timestamp = iso,
        total_positions = headerCount text\<rparr> = Inr snap"
    using summaryPass_returns by blast
  with pos iso show ?thesis
    by (simp add: parsePortfolioResponse_def Let_def)
qed

text \<open>
  An example: the control line \<open>#2. Will the next election be contested?\<close> is itself
  the first line of a position and contains \<open>next\<close>.
\<close>

lemma control_line_example:
  "isPositionHeader controlLine \<and> isControlLine controlLine
   \<and> (\<exists>snap. parsePortfolioResponse 0 controlText None
         = Inr \<lparr>snapshot = snap, positions = [positionA]\<rparr>)"
proof -
  let ?st = "\<lparr>pushed = [], currentPosition = Some positionA, inPositionsSection = True\<rparr>"
  have h1: "splitLines controlText = controlPre @ controlLine # controlPost"
    by (simp add: controlText_def controlPre_def controlLine_def controlPost_def parser_eval)
  have h2: "\<exists>h\<in>set controlPre. isPositionHeader h"
    by (simp add: controlPre_def parser_eval)
  have h2': "isPositionHeader controlLine"
    by (simp add: controlLine_def parser_eval)
  have h3: "isControlLine controlLine"
    by (simp add: controlLine_def parser_eval)
  have h4: "positionsPass controlPre \<lparr>pushed = [], currentPosition = None, inPositionsSection = False\<rparr>
      = Inr ?st"
    by (simp add: controlPre_def positionA_def parser_eval)
  have h5: "None \<noteq> Some InvalidDate" by simp
  have "pushCurrent ?st = [positionA]"
    by (simp add: pushCurrent_def positionA_def js_def)
  with control_line_returns_accumulated[OF h1 h2 h3 h4 h5, of 0]
  have "\<exists>snap. parsePortfolioResponse 0 controlText None
         = Inr \<lparr>snapshot = snap, positions = [positionA]\<rparr>" by simp
  with h2' h3 show ?thesis by blast
qed

lemma copiedBeforeControl_lines:
  "splitLines copiedBeforeControl =
     [js ''#1. Will A win?'', js ''Shares: 111'', js ''#2. Will B win?'',
      js ''Copied from: alice'', js ''Refresh'']"
  by (simp add: copiedBeforeControl_def parser_eval)

text \<open>
  C10.  The claim: once the positions section has been entered, the first control line
  ends position parsing, and the positions accumulated before it, the open one
  included, are kept in the output.  The code: in the message \<open>#1. Will A win?\<close>,
  \<open>Shares: 111\<close>, \<open>#2. Will B win?\<close>, \<open>Copied from: alice\<close>, \<open>Refresh\<close> the first line
  enters the positions section and \<open>Refresh\<close> is a control line, but the second pass
  raises a \<open>TypeError\<close> on the fourth line and never reaches it: the parser returns
  nothing, neither the position pushed before nor the open one.
\<close>

theorem control_line_after_copied_line_raises:
  "isPositionHeader (js ''#1. Will A win?'') \<and> isControlLine (js ''Refresh'')
   \<and> parsePortfolioResponse now copiedBeforeControl None = Inl TypeError
   \<and> parsePortfolioResponse now copiedBeforeControl (Some (Date t)) = Inl TypeError"
  by (simp add: copiedBeforeControl_def parsePortfolioResponse_def parser_eval)

section \<open>Negative numbers\<close>



lemma summaryLine_shape:
  assumes "summaryLine line snap = Inr snap'"
  shows "snap' = snap
   \<or> (\<exists>b\<ge>0. snap' = snap\<lparr>total_balance := Num b\<rparr>)
   \<or> (\<exists>b\<ge>0. snap' = snap\<lparr>available_balance := Num b\<rparr>)
   \<or> (\<exists>b\<ge>0. snap' = snap\<lparr>s_invested := Num b\<rparr>)
   \<or> (\<exists>b\<ge>0. snap' = snap\<lparr>s_value := Num b\<rparr>)
   \<or> (\<exists>x y. snap' = snap\<lparr>total_pnl_usd := x, total_pnl_pct := y\<rparr>)
   \<or> (\<exists>x. snap' = snap\<lparr>total_pnl_usd := x\<rparr>)"
proof -
  obtain v where v: "extractNumber line = Inr v"
    using extractNumber_returns by blast
  show ?thesis
  proof (cases "match line totalPnlRx")
    case None
    with v assms show ?thesis
      by (cases v) (auto simp: summaryLine_def Let_def split: if_splits)
  next
    case (Some m)
    obtain g2 g4 where "group m 2 = Inr g2" "group m 4 = Inr g4"
      using match_groups[OF Some] totalPnlRx_groups by blast
    with v Some assms show ?thesis
      by (cases v) (auto simp: summaryLine_def Let_def split: if_splits)
  qed
qed

lemma summaryLine_nonNegative:
  "summaryLine line snap = Inr snap' \<Longrightarrow> balancesNonNegative snap \<Longrightarrow> balancesNonNegative snap'"
  by (drule summaryLine_shape) (auto simp: balancesNonNegative_def nonNegative_def)

lemma summaryPass_nonNegative:
  "summaryPass lines snap = Inr snap' \<Longrightarrow> balancesNonNegative snap \<Longrightarrow> balancesNonNegative snap'"
proof (induction lines arbitrary: snap)
  case Nil
  then show ?case by simp
next
  case (Cons line lines)
  show ?case
  proof (cases "isPositionHeader line")
    case True
    with Cons.prems show ?thesis by simp
  next
    case False
    obtain s1 where s1: "summaryLine line snap = Inr s1"
      using summaryLine_returns by blast
    with Cons.prems False have "summaryPass lines s1 = Inr snap'" by simp
    moreover have "balancesNonNegative s1"
      using summaryLine_nonNegative[OF s1 Cons.prems(2)] .
    ultimately show ?thesis by (rule Cons.IH)
  qed
qed

lemma parse_nonNegative:
  "parsePortfolioResponse now text ts = Inr r \<Longrightarrow> balancesNonNegative (snapshot r)"
  by (auto simp: parsePortfolioResponse_def Let_def balancesNonNegative_def nonNegative_def
      split: sum.splits dest!: summaryPass_nonNegative)

lemma summaryLine_negative:
  "extractNumber line = Inr (Some v) \<Longrightarrow> v < 0 \<Longrightarrow> summaryLine line snap = Inr snap'
   \<Longrightarrow> sameBalances snap' snap"
  by (auto simp: summaryLine_def Let_def sameBalances_def
      split: if_splits sum.splits option.splits)


lemma negativeText_parse:
  "parsePortfolioResponse 0 negativeText None =
     Inr \<lparr>snapshot =
            \<lparr>total_balance = Num 0, available_balance = Num 0, s_invested = Num 0,
             s_value = Num 0, total_pnl_usd = Num (- (1519 / 100)),
             total_pnl_pct = Num (- (2 / 100)), timestamp = 0, total_positions = 0\<rparr>,
          positions = []\<rparr>"
  by (simp add: negativeText_def parsePortfolioResponse_def parser_eval)

lemma pnlText_parse:
  "parsePortfolioResponse 0 pnlText None =
     Inr \<lparr>snapshot =
            \<lparr>total_balance = Num 0, available_balance = Num 0, s_invested = Num 0,
             s_value = Num 0, total_pnl_usd = Num 0, total_pnl_pct = Num 0,
             timestamp = 0, total_positions = 0\<rparr>,
          positions =
            [\<lparr>market_question = js ''Will X happen?'', side = Yes, entry_price = Num 0,
              p_invested = Num 0, shares = Num 0, p_value = Num 0, pnl_usd = Num 5,
              pnl_pct = Num (- 10), expiry_timestamp = None, copied_from = None\<rparr>]\<rparr>"
  by (simp add: pnlText_def parsePortfolioResponse_def parser_eval)

lemma negative_balance_line:
  "extractNumber (js ''Total Balance: -5'') = Inr (Some (- 5))"
  by (simp add: parser_eval)

lemma fallbackPnlText_extractNumber:
  "extractNumber fallbackPnlText = Inr (Some (1519 / 100))"
  by (simp add: fallbackPnlText_def parser_eval)

text \<open>
  C6.  The claim: the sign of a negative number is preserved for \<open>totalPnlUsd\<close> and
  \<open>pnlPct\<close>, number extraction does not drop it.  The code: the line
  \<open>Total PNL: -$15.19\<close> has no percentage, so the first expression of the branch
  does not match and the fallback calls \<open>extractNumber\<close>, whose expression wants the
  sign next to the digits: the \<open>$\<close> between them makes it match \<open>15.19\<close>, and the
  total PNL of the snapshot is +15.19.  With the percentage, on
  \<open>Total PNL: -$15.19 (-0.02%)\<close>, the first expression reads the sign in a group of
  its own and the result is -15.19 (\<open>negativeText_parse\<close>).  The other half of the
  claim holds for every text: the four amounts of a returned snapshot are never
  negative (\<open>parse_nonNegative\<close>, \<open>summaryLine_negative\<close>).
\<close>

theorem total_pnl_fallback_drops_sign:
  "parsePortfolioResponse now fallbackPnlText None =
     Inr \<lparr>snapshot =
            \<lparr>total_balance = Num 0, available_balance = Num 0, s_invested = Num 0,
             s_value = Num 0, total_pnl_usd = Num (1519 / 100), total_pnl_pct = Num 0,
             timestamp = now, total_positions = 0\<rparr>,
          positions = []\<rparr>
   \<and> parsePortfolioResponse now fallbackPnlText (Some (Date t)) =
     Inr \<lparr>snapshot =
            \<lparr>total_balance = Num 0, available_balance = Num 0, s_invested = Num 0,
             s_value = Num 0, total_pnl_usd = Num (1519 / 100), total_pnl_pct = Num 0,
             timestamp = t, total_positions = 0\<rparr>,
          positions = []\<rparr>"
  by (simp add: fallbackPnlText_def parsePortfolioResponse_def parser_eval)

section \<open>A message with a total balance and a copied position\<close>

lemma balanceMessage_splitLines:
  "splitLines balanceMessage =
     [js ''Total Balance: $1,234.56'', js ''#1. Will it rain tomorrow?'',
      js ''Copied from: trader_a'']"
  by (simp add: balanceMessage_def parser_eval)

lemma balanceMessage_summaryPass:
  "summaryPass (splitLines balanceMessage) snap =
     Inr (snap\<lparr>total_balance := Num (123456 / 100)\<rparr>)"
  by (simp add: balanceMessage_splitLines) (simp add: parser_eval)

lemma balanceMessage_positionsPass:
  "positionsPass (splitLines balanceMessage)
     \<lparr>pushed = [], currentPosition = None, inPositionsSection = False\<rparr> = Inl TypeError"
  by (simp add: balanceMessage_splitLines) (simp add: parser_eval)

text \<open>
  C8.  The claim: every well-formed message with the line \<open>Total Balance: $X\<close> before
  the first numbered position line is parsed into a snapshot whose total balance is
  \<open>X\<close>.  The code: for the message \<open>Total Balance: $1,234.56\<close>,
  \<open>#1. Will it rain tomorrow?\<close>, \<open>Copied from: trader_a\<close> the first pass does set the
  balance to 1234.56 (\<open>balanceMessage_summaryPass\<close>), but the second pass raises on the
  last line and the parser returns no snapshot.
\<close>

theorem total_balance_message_raises:
  "parsePortfolioResponse now balanceMessage None = Inl TypeError
   \<and> parsePortfolioResponse now balanceMessage (Some (Date t)) = Inl TypeError"
  by (simp add: parsePortfolioResponse_def balanceMessage_summaryPass
      balanceMessage_positionsPass toISOString_def)

section \<open>The order of the position inserts\<close>

lemma arrange_Nil [simp]: "arrange rank [] = []"
  by (simp add: arrange_def)

lemma arrange_single [simp]: "arrange rank [x] = [x]"
  by (simp add: arrange_def)

lemma mset_arrange: "mset (arrange rank xs) = mset xs"
proof -
  have "mset (map snd (enumerate 0 xs)) = mset xs" by simp
  then have "image_mset snd (mset (enumerate 0 xs)) = mset xs" by (simp only: mset_map)
  then show ?thesis by (simp add: arrange_def)
qed

lemma set_arrange [simp]: "set (arrange rank xs) = set xs"
  using mset_arrange[of rank xs] by (metis set_mset_mset)

lemma length_arrange [simp]: "length (arrange rank xs) = length xs"
  by (simp add: arrange_def)

lemma arrange_inOrder: "arrange inOrder xs = xs"
proof -
  have "map (\<lambda>ix. inOrder (fst ix)) (enumerate 0 xs) = [0..<length xs]"
    using map_fst_enumerate[of 0 xs] by (simp add: inOrder_def)
  then have "sorted (map (\<lambda>ix. inOrder (fst ix)) (enumerate 0 xs))"
    by (simp only: sorted_upt)
  then show ?thesis
    by (simp add: arrange_def sort_key_id_if_sorted)
qed

lemma savePortfolio_accepted:
  assumes "acceptsPortfolio f snap ps"
  shows "savePortfolio f rank snap ps d =
     (Inr (lastID (portfolio_snapshots d)),
      d\<lparr>portfolio_snapshots := portfolio_snapshots d @ [(lastID (portfolio_snapshots d), snap)],
        positions_rows :=
          positions_rows d @ map (Pair (lastID (portfolio_snapshots d))) (arrange rank ps)\<rparr>)"
proof -
  from assms have s: "snapshot_insert_error f snap = None"
    and p: "\<forall>p\<in>set (arrange rank ps). position_insert_error f p = None"
    by (simp_all add: acceptsPortfolio_def list_all_iff)
  from p have "filter (\<lambda>p. position_insert_error f p = None) (arrange rank ps) = arrange rank ps"
    by simp
  moreover from p have "List.map_filter (position_insert_error f) (arrange rank ps) = []"
    by (induction "arrange rank ps") (simp_all add: List.map_filter_def)
  ultimately show ?thesis
    using s by (simp add: savePortfolio_def Let_def)
qed

lemma accepts_no_faults [simp]: "acceptsPortfolio no_faults snap ps"
  by (simp add: acceptsPortfolio_def no_faults_def list_all_iff)

lemma savePortfolio_rejected:
  "snapshot_insert_error f snap = Some e \<Longrightarrow> savePortfolio f rank snap ps d = (Inl e, d)"
  by (simp add: savePortfolio_def)

lemma savePortfolio_tables:
  "copy_trading_events (snd (savePortfolio f rank snap ps d)) = copy_trading_events d"
  by (simp add: savePortfolio_def Let_def split: option.splits list.splits)

section \<open>Julian days and the tolerance of five minutes\<close>

text \<open>
  The rounding of \<open>julianday\<close> moves a Julian day by at most \<open>2^-31\<close> days, which is
  less than a twentieth of a millisecond: two timestamps less than five minutes apart
  satisfy the condition of the query, two timestamps more than five minutes apart do
  not.
\<close>

lemma roundHalfEven_error:
  assumes "0 < d"
  shows "\<bar>of_int (roundHalfEven n d) - (of_int n / of_int d :: rat)\<bar> \<le> 1 / 2"
proof -
  define q where "q = n div d"
  define r where "r = n mod d"
  have r: "0 \<le> r" "r < d" using assms by (simp_all add: r_def)
  have "n = q * d + r" by (simp add: q_def r_def)
  then have "(of_int n :: rat) = of_int q * of_int d + of_int r" by simp
  then have n: "(of_int n / of_int d :: rat) = of_int q + of_int r / of_int d"
    using assms by (simp add: field_simps)
  have d: "(0 :: rat) < of_int d" using assms by simp
  consider (lo) "2 * r < d" | (hi) "d < 2 * r" | (tie) "2 * r = d" by linarith
  then show ?thesis
  proof cases
    case lo
    then have "(2 :: rat) * of_int r < of_int d" by (metis of_int_less_iff of_int_mult of_int_numeral)
    then have "(of_int r / of_int d :: rat) < 1 / 2" using d by (simp add: field_simps)
    moreover have "(0 :: rat) \<le> of_int r / of_int d" using r d by simp
    moreover have "roundHalfEven n d = q" using lo by (simp add: roundHalfEven_def Let_def q_def r_def)
    ultimately show ?thesis by (simp add: n)
  next
    case hi
    then have "(of_int d :: rat) < 2 * of_int r" by (metis of_int_less_iff of_int_mult of_int_numeral)
    then have "(1 / 2 :: rat) < of_int r / of_int d" using d by (simp add: field_simps)
    moreover have "(of_int r / of_int d :: rat) < 1" using r d by simp
    moreover have "roundHalfEven n d = q + 1" using hi by (simp add: roundHalfEven_def Let_def q_def r_def)
    ultimately show ?thesis by (simp add: n)
  next
    case tie
    then have "(2 :: rat) * of_int r = of_int d" by (metis of_int_mult of_int_numeral)
    then have h: "(of_int r / of_int d :: rat) = 1 / 2" using d by (simp add: field_simps)
    have "roundHalfEven n d = q \<or> roundHalfEven n d = q + 1"
      using tie by (simp add: roundHalfEven_def Let_def q_def r_def)
    then show ?thesis by (auto simp: n h)
  qed
qed

lemma julianday_Some_iff: "(\<exists>x. julianday t = Some x) \<longleftrightarrow> fourDigitYear t"
  by (auto simp: julianday_def fourDigitYear_def Let_def)

lemma julianday_error:
  assumes "julianday t = Some x"
  shows "\<bar>x - of_int (t + 210866760000000) / 86400000\<bar> \<le> 1 / 2 ^ 31"
proof -
  define iJD where "iJD = t + 210866760000000"
  define p where "p = (if iJD < 2 ^ 21 * 86400000 then 32
                       else if iJD < 2 ^ 22 * 86400000 then 31 else (30 :: nat))"
  have p: "30 \<le> p" by (simp add: p_def)
  have rng: "(t < - 62167219200000 \<or> 253402300799999 < t) = False"
    using assms by (cases "t < - 62167219200000 \<or> 253402300799999 < t") (simp_all add: julianday_def)
  have "julianday t = Some (of_int (roundHalfEven (iJD * 2 ^ p) 86400000) / 2 ^ p)"
    by (simp only: julianday_def Let_def iJD_def p_def rng if_False)
  with assms have x: "x = of_int (roundHalfEven (iJD * 2 ^ p) 86400000) / 2 ^ p" by simp
  have "\<bar>of_int (roundHalfEven (iJD * 2 ^ p) 86400000)
          - (of_int (iJD * 2 ^ p) / of_int 86400000 :: rat)\<bar> \<le> 1 / 2"
    by (rule roundHalfEven_error) simp
  then have "\<bar>of_int (roundHalfEven (iJD * 2 ^ p) 86400000)
          - (of_int iJD / 86400000 :: rat) * 2 ^ p\<bar> \<le> 1 / 2"
    by simp
  moreover have "of_int (roundHalfEven (iJD * 2 ^ p) 86400000) = x * 2 ^ p"
    by (simp add: x)
  ultimately have "\<bar>(x - of_int iJD / 86400000) * 2 ^ p\<bar> \<le> 1 / 2"
    by (simp add: algebra_simps)
  then have "\<bar>x - of_int iJD / 86400000\<bar> * 2 ^ p \<le> 1 / 2"
    by (simp add: abs_mult)
  then have "\<bar>x - of_int iJD / 86400000\<bar> \<le> 1 / 2 / 2 ^ p"
    by (simp add: field_simps)
  also have "(1 / 2 / 2 ^ p :: rat) \<le> 1 / 2 ^ 31"
  proof -
    have "(2 :: rat) ^ 31 \<le> 2 ^ Suc p" using p by (intro power_increasing) simp_all
    then have "(1 :: rat) / 2 ^ Suc p \<le> 1 / 2 ^ 31" by (intro divide_left_mono) simp_all
    then show ?thesis by simp
  qed
  finally show ?thesis by (simp add: iJD_def)
qed

lemma julianday_distance:
  assumes "julianday a = Some x" "julianday b = Some y"
  shows "\<bar>\<bar>x - y\<bar> - \<bar>of_int a - of_int b\<bar> / 86400000\<bar> \<le> 2 / 2 ^ 31"
proof -
  define A :: rat where "A = of_int (a + 210866760000000) / 86400000"
  define B :: rat where "B = of_int (b + 210866760000000) / 86400000"
  have ex: "\<bar>x - A\<bar> \<le> 1 / 2 ^ 31" and ey: "\<bar>y - B\<bar> \<le> 1 / 2 ^ 31"
    using julianday_error[OF assms(1)] julianday_error[OF assms(2)] by (simp_all add: A_def B_def)
  have d: "A - B = (of_int a - of_int b) / 86400000"
    by (simp add: A_def B_def add_divide_distrib diff_divide_distrib)
  have "\<bar>A - B\<bar> = \<bar>(of_int a - of_int b) / 86400000\<bar>" by (simp only: d)
  also have "\<dots> = \<bar>of_int a - of_int b\<bar> / 86400000" by (simp only: abs_divide abs_numeral)
  finally have AB: "\<bar>A - B\<bar> = \<bar>of_int a - of_int b\<bar> / 86400000" .
  have "\<bar>\<bar>x - y\<bar> - \<bar>A - B\<bar>\<bar> \<le> \<bar>x - A\<bar> + \<bar>y - B\<bar>" by linarith
  with ex ey have "\<bar>\<bar>x - y\<bar> - \<bar>A - B\<bar>\<bar> \<le> 1 / 2 ^ 31 + 1 / 2 ^ 31" by linarith
  then show ?thesis by (simp add: AB)
qed

lemma withinTolerance_less:
  assumes "fourDigitYear a" "fourDigitYear b" "\<bar>a - b\<bar> < 300000"
  shows "withinTolerance a b 5"
proof -
  from assms(1,2) obtain x y where x: "julianday a = Some x" and y: "julianday b = Some y"
    using julianday_Some_iff by blast
  have "\<bar>a - b\<bar> \<le> 299999" using assms(3) by simp
  then have "(of_int \<bar>a - b\<bar> :: rat) \<le> of_int 299999" by (simp only: of_int_le_iff)
  then have ab: "\<bar>(of_int a - of_int b :: rat)\<bar> / 86400000 \<le> 299999 / 86400000" by simp
  have "\<bar>x - y\<bar> \<le> \<bar>of_int a - of_int b\<bar> / 86400000 + 2 / 2 ^ 31"
    using julianday_distance[OF x y] by linarith
  with ab have "\<bar>x - y\<bar> \<le> 299999 / 86400000 + 2 / 2 ^ 31" by linarith
  then have "\<bar>x - y\<bar> * 24 * 60 \<le> (299999 / 86400000 + 2 / 2 ^ 31) * 24 * 60" by simp
  also have "\<dots> < 5" by simp
  finally show ?thesis using x y by (simp add: withinTolerance_def)
qed

lemma withinTolerance_greater:
  assumes "300000 < \<bar>a - b\<bar>"
  shows "\<not> withinTolerance a b 5"
proof (cases "julianday a")
  case None
  then show ?thesis by (simp add: withinTolerance_def)
next
  case (Some x)
  show ?thesis
  proof (cases "julianday b")
    case None
    then show ?thesis using Some by (simp add: withinTolerance_def)
  next
    case y: (Some y)
    have "300001 \<le> \<bar>a - b\<bar>" using assms by simp
    then have "(of_int 300001 :: rat) \<le> of_int \<bar>a - b\<bar>" by (simp only: of_int_le_iff)
    then have ab: "300001 / 86400000 \<le> \<bar>(of_int a - of_int b :: rat)\<bar> / 86400000" by simp
    have "\<bar>of_int a - of_int b\<bar> / 86400000 - 2 / 2 ^ 31 \<le> \<bar>x - y\<bar>"
      using julianday_distance[OF Some y] by linarith
    with ab have "300001 / 86400000 - 2 / 2 ^ 31 \<le> \<bar>x - y\<bar>" by linarith
    then have "(300001 / 86400000 - 2 / 2 ^ 31) * 24 * 60 \<le> \<bar>x - y\<bar> * 24 * 60" by simp
    moreover have "(5 :: rat) < (300001 / 86400000 - 2 / 2 ^ 31) * 24 * 60" by simp
    ultimately have "\<not> \<bar>x - y\<bar> * 24 * 60 < 5" by linarith
    then show ?thesis using Some y by (simp add: withinTolerance_def)
  qed
qed

lemma five_minutes_apart: "withinTolerance 0 300000 5"
  by (simp add: withinTolerance_def julianday_def roundHalfEven_def Let_def)

section \<open>What a detection pass saves\<close>

lemma appendEvents_Nil [simp]: "appendEvents [] d = d"
  by (simp add: appendEvents_def)

lemma appendEvents_Cons:
  "appendEvents (ev # evs) d =
     appendEvents evs (d\<lparr>copy_trading_events :=
                           copy_trading_events d @ [(lastID (copy_trading_events d), ev)]\<rparr>)"
  by (simp add: appendEvents_def)

lemma appendEvents_append: "appendEvents (xs @ ys) d = appendEvents ys (appendEvents xs d)"
  by (simp add: appendEvents_def)

lemma appendEvents_tables [simp]:
  "portfolio_snapshots (appendEvents evs d) = portfolio_snapshots d"
  "positions_rows (appendEvents evs d) = positions_rows d"
  by (induction evs arbitrary: d) (simp_all add: appendEvents_Cons)

lemma savedEvents_appendEvents [simp]:
  "savedEvents (appendEvents evs d) = savedEvents d @ evs"
  by (induction evs arbitrary: d) (simp_all add: appendEvents_Cons savedEvents_def)



lemma firstRejection_None_iff: "firstRejection f evs = None \<longleftrightarrow> (\<forall>ev\<in>set evs. accepted f ev)"
  by (induction evs) (auto simp: firstRejection_def accepted_def)


lemma detect_first_pass:
  "lastKnownTraders st = [] \<Longrightarrow>
   detectCopyTradingChanges f snapshotId ps st = st\<lparr>lastKnownTraders := currentTradersOf ps\<rparr>"
  by (simp add: detectCopyTradingChanges_def)






section \<open>Sets of traders, the latest snapshot and two passes of \<open>index.ts\<close>\<close>











lemma accepted_no_faults [simp]: "accepted no_faults ev"
  by (simp add: accepted_def no_faults_def)

lemma firstRejection_no_faults [simp]: "firstRejection no_faults evs = None"
  by (simp add: firstRejection_None_iff)


lemma latestRow_snoc:
  "latestRow (rows @ [r]) =
     (case latestRow rows of
        None \<Rightarrow> Some r
      | Some b \<Rightarrow> if timestamp (snd b) \<le> timestamp (snd r) then Some r else Some b)"
  by (simp add: latestRow_def)

lemma latestRow_mem: "latestRow rows = Some b \<Longrightarrow> b \<in> set rows"
  by (induction rows arbitrary: b rule: rev_induct)
     (auto simp: latestRow_snoc latestRow_def split: option.splits if_splits)



lemma latestRow_last:
  "\<forall>row\<in>set rows. timestamp (snd row) \<le> timestamp (snd r) \<Longrightarrow> latestRow (rows @ [r]) = Some r"
proof -
  assume le: "\<forall>row\<in>set rows. timestamp (snd row) \<le> timestamp (snd r)"
  show ?thesis
  proof (cases "latestRow rows")
    case None
    then show ?thesis by (simp add: latestRow_snoc)
  next
    case (Some b)
    then have "b \<in> set rows" by (rule latestRow_mem)
    with le have "timestamp (snd b) \<le> timestamp (snd r)" by blast
    with Some show ?thesis by (simp add: latestRow_snoc)
  qed
qed





section \<open>What a detection pass of the Next.js route saves\<close>














section \<open>The first pass of a fresh process\<close>

text \<open>The definitions that the simplifier unfolds to run the engine on a concrete state.\<close>

lemmas engine_eval =
  reconcile_def savePortfolio_def detectCopyTradingChanges_def saveCopyTradingEvent_def
  getLatestSnapshot_def latestRow_def currentTradersOf_def setAdd_def newSet_def trim_def
  isWhiteSpace_def js_def alice_def bob_def carol_def lastID_def snapshotAt_def
  copiedPosition_def no_faults_def rejectCarol_def knownEngine_def freshEngine_def
  emptyDatabase_def addedEvent_def removedEvent_def List.map_filter_def orNullString_def
  reconcile_route_def savePortfolio_lib_def detectCopyTradingChanges_route_def
  getUniqueTraders_lib_def copiedFromValues_def savedEvents_def arrange_inOrder ticking_def
  failingQueries_def Let_def

text \<open>
  C3.  The claim: with \<open>lastKnownTraders\<close> empty, a pass over a snapshot whose positions
  are copied from \<open>alice\<close> emits no event and leaves \<open>lastKnownTraders\<close> at \<open>{alice}\<close>.
  The code: \<open>detectCopyTradingChanges\<close> of \<open>index.ts\<close> does so (\<open>detect_first_pass\<close>,
  \<open>express_first_pass_silent\<close>), its test \<open>lastKnownTraders.size > 0\<close> guards the events.
  The \<open>detectCopyTradingChanges\<close> of the Next.js route and scheduler has no such test:
  on a fresh engine and an empty database the pass saves the event
  \<open>copier_added\<close> for \<open>alice\<close>, stamped with the first reading of the clock.
\<close>

theorem route_first_pass_emits_added:
  "reconcile_route no_faults clock (snapshotAt t) [copiedPosition alice] freshEngine =
     (Inr 1,
      \<lparr>lastKnownTraders = [alice],
       store = \<lparr>portfolio_snapshots = [(1, snapshotAt t)],
                positions_rows = [(1, copiedPosition alice)],
                copy_trading_events = [(1, addedEvent (clock 0) alice)]\<rparr>,
       console = [NewCopier alice]\<rparr>)"
  by (simp add: engine_eval)

lemma express_first_pass_silent:
  "reconcile no_faults rank (snapshotAt t) [copiedPosition alice] freshEngine =
     (Inr 1,
      \<lparr>lastKnownTraders = [alice],
       store = \<lparr>portfolio_snapshots = [(1, snapshotAt t)],
                positions_rows = [(1, copiedPosition alice)],
                copy_trading_events = []\<rparr>,
       console = []\<rparr>)"
  by (simp add: engine_eval)

section \<open>Two consecutive passes\<close>




section \<open>Storage failures during a pass\<close>








section \<open>The historical backfill\<close>

lemma balanceReport_parse:
  "parsePortfolioResponse now (js ''Total Balance: $90.20'') (Some (Date t)) = Inr (balanceParsed t)"
  by (simp add: balanceParsed_def parsePortfolioResponse_def parser_eval)

lemma emptyReport_parse:
  "parsePortfolioResponse now (js ''Total Balance: $0.00'') (Some (Date t)) = Inr (emptyParsed t)"
  by (simp add: emptyParsed_def parsePortfolioResponse_def parser_eval)

lemma near_iff:
  "snapshotExistsNearTimestamp f t 5 d \<longleftrightarrow>
     query_error f = None
     \<and> (\<exists>row\<in>set (portfolio_snapshots d). withinTolerance (timestamp (snd row)) t 5)"
  by (cases "query_error f") (simp_all add: snapshotExistsNearTimestamp_def list_ex_iff)

lemmas time_eval =
  snapshotExistsNearTimestamp_def withinTolerance_def julianday_def roundHalfEven_def
  oneSnapshot_def emptyDatabase_def snapshotAt_def no_faults_def Let_def

text \<open>
  C5, as stated, fails: the candidate \<open>Total Balance: $0.00\<close> lies ten minutes from the
  only stored snapshot and is not stored, but counted as skipped.
\<close>

theorem backfill_discards_candidate_without_data:
  "\<not> snapshotExistsNearTimestamp no_faults 600000 5 oneSnapshot
   \<and> processMessage no_faults inOrder 0 (emptyReport 600000) (oneSnapshot, noCounts)
       = (oneSnapshot, \<lparr>saved = 0, skipped = 1, errors = 0\<rparr>)"
  by (simp add: processMessage_def emptyReport_def emptyReport_parse emptyParsed_def
      hasValidData_def positive_def toISOString_def noCounts_def time_eval)

text \<open>
  C5, amended.  For a candidate message with a valid date, whatever the order in which
  the database runs the position inserts: (1) if \<open>snapshotExistsNearTimestamp\<close> answers
  true, the candidate is discarded and counted as skipped; (2) otherwise, if the
  parser returns a result with a positive total balance, a position or a non-zero
  reported count, and the database accepts the snapshot and its positions, they are
  stored and the candidate is counted as saved; (3) otherwise, if the parser returns a
  result with none of these, the candidate is discarded and counted as skipped.
  (4) \<open>snapshotExistsNearTimestamp\<close> answers true when its query does not fail and the
  condition of the query holds for a stored snapshot; (5) the condition holds for two
  timestamps with years of four digits that are less than five minutes apart, and
  (6) it fails for two timestamps more than five minutes apart.  (7) At exactly five
  minutes the rounding of \<open>julianday\<close> decides: a snapshot at the epoch and a candidate
  300000 ms later satisfy the condition.  (8) The rows stored for the positions are a
  permutation of the positions.
\<close>

theorem backfill_skips_near_and_saves_valid:
  "(\<forall>f rank now msg t d c.
      msg_date msg = Date t \<and> snapshotExistsNearTimestamp f t 5 d
      \<longrightarrow> processMessage f rank now msg (d, c) = (d, c\<lparr>skipped := skipped c + 1\<rparr>))
   \<and> (\<forall>f rank now msg t d c parsed.
      msg_date msg = Date t \<and> \<not> snapshotExistsNearTimestamp f t 5 d
      \<and> parsePortfolioResponse now (msg_text msg) (Some (msg_date msg)) = Inr parsed
      \<and> hasValidData parsed
      \<and> acceptsPortfolio f (snapshot parsed) (positions parsed)
      \<longrightarrow> processMessage f rank now msg (d, c) =
            (d\<lparr>portfolio_snapshots :=
                 portfolio_snapshots d @ [(lastID (portfolio_snapshots d), snapshot parsed)],
               positions_rows :=
                 positions_rows d
                 @ map (Pair (lastID (portfolio_snapshots d))) (arrange rank (positions parsed))\<rparr>,
             c\<lparr>saved := saved c + 1\<rparr>))
   \<and> (\<forall>f rank now msg t d c parsed.
      msg_date msg = Date t \<and> \<not> snapshotExistsNearTimestamp f t 5 d
      \<and> parsePortfolioResponse now (msg_text msg) (Some (msg_date msg)) = Inr parsed
      \<and> \<not> hasValidData parsed
      \<longrightarrow> processMessage f rank now msg (d, c) = (d, c\<lparr>skipped := skipped c + 1\<rparr>))
   \<and> (\<forall>f t d. snapshotExistsNearTimestamp f t 5 d \<longleftrightarrow>
         query_error f = None
         \<and> (\<exists>row\<in>set (portfolio_snapshots d). withinTolerance (timestamp (snd row)) t 5))
   \<and> (\<forall>a b. fourDigitYear a \<and> fourDigitYear b \<and> \<bar>a - b\<bar> < 5 * 60000
         \<longrightarrow> withinTolerance a b 5)
   \<and> (\<forall>a b. 5 * 60000 < \<bar>a - b\<bar> \<longrightarrow> \<not> withinTolerance a b 5)
   \<and> withinTolerance 0 (5 * 60000) 5
   \<and> (\<forall>rank ps. mset (arrange rank ps) = mset (ps :: Position list))"
proof (intro conjI allI impI)
  fix f :: faults and rank :: "nat \<Rightarrow> nat" and now :: int and msg :: message and t :: int
    and d :: database and c :: counts
  assume "msg_date msg = Date t \<and> snapshotExistsNearTimestamp f t 5 d"
  then show "processMessage f rank now msg (d, c) = (d, c\<lparr>skipped := skipped c + 1\<rparr>)"
    by (simp add: processMessage_def toISOString_def)
next
  fix f :: faults and rank :: "nat \<Rightarrow> nat" and now :: int and msg :: message and t :: int
    and d :: database and c :: counts and parsed :: ParsedPortfolio
  assume "msg_date msg = Date t \<and> \<not> snapshotExistsNearTimestamp f t 5 d
      \<and> parsePortfolioResponse now (msg_text msg) (Some (msg_date msg)) = Inr parsed
      \<and> hasValidData parsed
      \<and> acceptsPortfolio f (snapshot parsed) (positions parsed)"
  then have "msg_date msg = Date t" "\<not> snapshotExistsNearTimestamp f t 5 d"
    "parsePortfolioResponse now (msg_text msg) (Some (Date t)) = Inr parsed" "hasValidData parsed"
    and a: "acceptsPortfolio f (snapshot parsed) (positions parsed)"
    by auto
  then show "processMessage f rank now msg (d, c) =
            (d\<lparr>portfolio_snapshots :=
                 portfolio_snapshots d @ [(lastID (portfolio_snapshots d), snapshot parsed)],
               positions_rows :=
                 positions_rows d
                 @ map (Pair (lastID (portfolio_snapshots d))) (arrange rank (positions parsed))\<rparr>,
             c\<lparr>saved := saved c + 1\<rparr>)"
    by (simp add: processMessage_def toISOString_def savePortfolio_accepted[OF a])
next
  fix f :: faults and rank :: "nat \<Rightarrow> nat" and now :: int and msg :: message and t :: int
    and d :: database and c :: counts and parsed :: ParsedPortfolio
  assume "msg_date msg = Date t \<and> \<not> snapshotExistsNearTimestamp f t 5 d
      \<and> parsePortfolioResponse now (msg_text msg) (Some (msg_date msg)) = Inr parsed
      \<and> \<not> hasValidData parsed"
  then have "msg_date msg = Date t" "\<not> snapshotExistsNearTimestamp f t 5 d"
    "parsePortfolioResponse now (msg_text msg) (Some (Date t)) = Inr parsed" "\<not> hasValidData parsed"
    by auto
  then show "processMessage f rank now msg (d, c) = (d, c\<lparr>skipped := skipped c + 1\<rparr>)"
    by (simp add: processMessage_def toISOString_def)
next
  fix f :: faults and t :: int and d :: database
  show "snapshotExistsNearTimestamp f t 5 d \<longleftrightarrow>
         query_error f = None
         \<and> (\<exists>row\<in>set (portfolio_snapshots d). withinTolerance (timestamp (snd row)) t 5)"
    by (rule near_iff)
next
  fix a b :: int
  assume "fourDigitYear a \<and> fourDigitYear b \<and> \<bar>a - b\<bar> < 5 * 60000"
  then show "withinTolerance a b 5"
    by (intro withinTolerance_less) simp_all
next
  fix a b :: int
  assume "5 * 60000 < \<bar>a - b\<bar>"
  then show "\<not> withinTolerance a b 5"
    by (intro withinTolerance_greater) simp
next
  show "withinTolerance 0 (5 * 60000) 5"
    using five_minutes_apart by simp
next
  fix rank :: "nat \<Rightarrow> nat" and ps :: "Position list"
  show "mset (arrange rank ps) = mset ps" by (rule mset_arrange)
qed

text \<open>
  A stored snapshot at \<open>T = 0\<close>: the candidate at \<open>T\<close> + 3 min is skipped, the one at
  \<open>T\<close> + 10 min with a balance of 90.20 is stored, the one at \<open>T\<close> + 15 min without data
  is skipped.
\<close>

theorem backfill_skips_near_and_saves_valid_witness:
  "processMessage no_faults inOrder 0 (balanceReport 180000) (oneSnapshot, noCounts)
     = (oneSnapshot, \<lparr>saved = 0, skipped = 1, errors = 0\<rparr>)
   \<and> processMessage no_faults inOrder 0 (balanceReport 600000) (oneSnapshot, noCounts)
     = (oneSnapshot\<lparr>portfolio_snapshots :=
                      [(1, snapshotAt 0), (2, snapshot (balanceParsed 600000))]\<rparr>,
        \<lparr>saved = 1, skipped = 0, errors = 0\<rparr>)
   \<and> processMessage no_faults inOrder 0 (emptyReport 900000) (oneSnapshot, noCounts)
     = (oneSnapshot, \<lparr>saved = 0, skipped = 1, errors = 0\<rparr>)
   \<and> fourDigitYear 0 \<and> fourDigitYear 180000 \<and> withinTolerance 0 180000 5
   \<and> \<not> withinTolerance 0 600000 5"
proof -
  note t = backfill_skips_near_and_saves_valid
  have rows: "portfolio_snapshots oneSnapshot = [(1, snapshotAt 0)]"
    "positions_rows oneSnapshot = []"
    by (simp_all add: oneSnapshot_def emptyDatabase_def)
  have y: "fourDigitYear 0 \<and> fourDigitYear 180000 \<and> \<bar>0 - 180000\<bar> < (5 * 60000 :: int)"
    by (simp add: fourDigitYear_def)
  from t[THEN conjunct2, THEN conjunct2, THEN conjunct2, THEN conjunct2, THEN conjunct1,
      rule_format, OF this]
  have w: "withinTolerance 0 180000 5" .
  have "(5 * 60000 :: int) < \<bar>0 - 600000\<bar>" by simp
  from t[THEN conjunct2, THEN conjunct2, THEN conjunct2, THEN conjunct2, THEN conjunct2,
      THEN conjunct1, rule_format, OF this]
  have nw: "\<not> withinTolerance 0 600000 5" .
  have "(5 * 60000 :: int) < \<bar>0 - 900000\<bar>" by simp
  from t[THEN conjunct2, THEN conjunct2, THEN conjunct2, THEN conjunct2, THEN conjunct2,
      THEN conjunct1, rule_format, OF this]
  have nw': "\<not> withinTolerance 0 900000 5" .
  note n = t[THEN conjunct2, THEN conjunct2, THEN conjunct2, THEN conjunct1, rule_format]
  have e1: "snapshotExistsNearTimestamp no_faults 180000 5 oneSnapshot"
    and e2: "\<not> snapshotExistsNearTimestamp no_faults 600000 5 oneSnapshot"
    and e3: "\<not> snapshotExistsNearTimestamp no_faults 900000 5 oneSnapshot"
    using w nw nw' by (simp_all add: n rows snapshotAt_def no_faults_def)
  have "msg_date (balanceReport 180000) = Date 180000
      \<and> snapshotExistsNearTimestamp no_faults 180000 5 oneSnapshot"
    using e1 by (simp add: balanceReport_def)
  from t[THEN conjunct1, rule_format, OF this, where now = 0 and c = noCounts and rank = inOrder]
  have 1: "processMessage no_faults inOrder 0 (balanceReport 180000) (oneSnapshot, noCounts)
     = (oneSnapshot, \<lparr>saved = 0, skipped = 1, errors = 0\<rparr>)"
    by (simp add: noCounts_def)
  have "msg_date (balanceReport 600000) = Date 600000
      \<and> \<not> snapshotExistsNearTimestamp no_faults 600000 5 oneSnapshot
      \<and> parsePortfolioResponse 0 (msg_text (balanceReport 600000))
            (Some (msg_date (balanceReport 600000))) = Inr (balanceParsed 600000)
      \<and> hasValidData (balanceParsed 600000)
      \<and> acceptsPortfolio no_faults (snapshot (balanceParsed 600000))
            (positions (balanceParsed 600000))"
    using e2 by (simp add: balanceReport_def balanceReport_parse)
       (simp add: balanceParsed_def hasValidData_def positive_def)
  from t[THEN conjunct2, THEN conjunct1, rule_format, OF this,
      where c = noCounts and rank = inOrder]
  have 2: "processMessage no_faults inOrder 0 (balanceReport 600000) (oneSnapshot, noCounts)
     = (oneSnapshot\<lparr>portfolio_snapshots :=
                      [(1, snapshotAt 0), (2, snapshot (balanceParsed 600000))]\<rparr>,
        \<lparr>saved = 1, skipped = 0, errors = 0\<rparr>)"
    by (simp add: noCounts_def rows lastID_def balanceParsed_def)
  have "msg_date (emptyReport 900000) = Date 900000
      \<and> \<not> snapshotExistsNearTimestamp no_faults 900000 5 oneSnapshot
      \<and> parsePortfolioResponse 0 (msg_text (emptyReport 900000))
            (Some (msg_date (emptyReport 900000))) = Inr (emptyParsed 900000)
      \<and> \<not> hasValidData (emptyParsed 900000)"
    using e3 by (simp add: emptyReport_def emptyReport_parse)
       (simp add: emptyParsed_def hasValidData_def positive_def)
  from t[THEN conjunct2, THEN conjunct2, THEN conjunct1, rule_format, OF this,
      where c = noCounts and rank = inOrder]
  have 3: "processMessage no_faults inOrder 0 (emptyReport 900000) (oneSnapshot, noCounts)
     = (oneSnapshot, \<lparr>saved = 0, skipped = 1, errors = 0\<rparr>)"
    by (simp add: noCounts_def)
  from 1 2 3 y w nw show ?thesis by simp
qed

end
